theory Spec2Isabelle
  imports
    Complex_Main
    "HOL-Library.Char_ord"
    "HOL-Library.List_Lexorder"
    "HOL-Library.Product_Lexorder"
    "HOL-Library.Sublist"
    "HOL-Library.Multiset"
begin

section \<open>Data model\<close>

text \<open>
  The program \<^verbatim>\<open>procesamiento_emisiones_cdmx_doc.py\<close> is a pipeline over pandas tables.
  A table cell holds a number, a text, or nothing (pandas' NaN). Numbers are float64 in
  the program and idealised as reals here: rounding and the infinities are not modelled.
  Texts are byte strings; column labels are assumed to be ASCII and unique within a
  table, as \<^verbatim>\<open>pd.read_csv\<close> delivers them.
\<close>

datatype cell = Number real | Text string | Empty

text \<open>
  A DataFrame: the column labels in order, and the rows, each a list of cells aligned
  with the labels. A cell that a row does not hold reads as missing, as pandas pads it.
\<close>

record frame =
  columns :: "string list"
  rows :: "cell list list"

definition cell_at :: "string list \<Rightarrow> cell list \<Rightarrow> string \<Rightarrow> cell" where
  "cell_at cols r c = (case map_of (zip cols r) c of Some v \<Rightarrow> v | None \<Rightarrow> Empty)"

text \<open>
  The exceptions of the program, as values. \<open>RuntimeError\<close> is raised by
  \<^verbatim>\<open>cargar_todo\<close> when no input file is found, \<open>ReadError\<close> stands for any exception of
  \<^verbatim>\<open>pd.read_csv\<close> on the named file, \<open>FaltanColumnasBase\<close> is the
  \<^verbatim>\<open>KeyError("Faltan columnas base: ...")\<close> of \<^verbatim>\<open>filtrar_columnas\<close> with the list it
  prints, \<open>KeyError\<close> and \<open>ValueError\<close> are those of \<^verbatim>\<open>DataFrame.melt\<close> and
  \<^verbatim>\<open>DataFrame.pivot\<close>, and \<open>TypeError\<close> is the refusal of \<^verbatim>\<open>astype("Int64")\<close> to cast
  a number that is not an int64, and that of Python to compare a number with a text.
\<close>

datatype error =
    RuntimeError
  | ReadError string
  | FaltanColumnasBase "string list"
  | KeyError "string list"
  | ValueError
  | TypeError

section \<open>Column labels\<close>

definition base_cols :: "string list" where
  "base_cols = [''ESTACION'', ''MAGNITUD'', ''ANO'', ''MES'']"

definition is_digit :: "char \<Rightarrow> bool" where
  "is_digit c = (CHR ''0'' \<le> c \<and> c \<le> CHR ''9'')"

text \<open>\<^verbatim>\<open>re.fullmatch(r"D\d{2}", c)\<close>: the letter D and exactly two decimal digits.\<close>

fun is_day_col :: "string \<Rightarrow> bool" where
  "is_day_col [d, a, b] = (d = CHR ''D'' \<and> is_digit a \<and> is_digit b)"
| "is_day_col _ = False"

definition digit_val :: "char \<Rightarrow> int" where
  "digit_val c = of_char c - 48"

text \<open>
  Python's \<^verbatim>\<open>int(s)\<close> on a string of decimal digits. The program applies it only to
  \<^verbatim>\<open>x[1:]\<close> of a label that matched the day pattern, where it cannot raise.
\<close>

definition py_int :: "string \<Rightarrow> int" where
  "py_int s = foldl (\<lambda>acc c. 10 * acc + digit_val c) 0 s"

text \<open>The sort key \<^verbatim>\<open>lambda x: int(x[1:])\<close> of a day label.\<close>

definition day_number :: "string \<Rightarrow> int" where
  "day_number x = py_int (drop 1 x)"

section \<open>Schema filter\<close>

text \<open>\<^verbatim>\<open>df[cols].copy()\<close>: a new table holding the listed columns only, in that order.\<close>

definition select_columns :: "string list \<Rightarrow> frame \<Rightarrow> frame" where
  "select_columns cols df =
     \<lparr>columns = cols, rows = map (\<lambda>r. map (cell_at (columns df) r) cols) (rows df)\<rparr>"

text \<open>
  \<^verbatim>\<open>filtrar_columnas\<close>. Python's \<^verbatim>\<open>sorted\<close> is stable, as \<open>sort_key\<close> is.
\<close>

definition filtrar_columnas :: "frame \<Rightarrow> error + frame" where
  "filtrar_columnas emisiones_raw =
     (let day_cols = filter is_day_col (columns emisiones_raw);
          day_cols = sort_key day_number day_cols;
          missing = filter (\<lambda>c. c \<notin> set (columns emisiones_raw)) base_cols
      in if missing \<noteq> [] then Inl (FaltanColumnasBase missing)
         else Inr (select_columns (base_cols @ day_cols) emisiones_raw))"

section \<open>Reshape and date synthesis\<close>

text \<open>
  \<^verbatim>\<open>pd.to_numeric(..., errors="coerce")\<close>: a number stays, a missing cell stays missing,
  and a text is read by pandas' number parser, which is not part of the program: it is
  the parameter \<open>num\<close>, with \<open>num s = None\<close> for a text that does not parse.
\<close>

definition to_numeric :: "(string \<rightharpoonup> real) \<Rightarrow> cell \<Rightarrow> real option" where
  "to_numeric num c = (case c of Number x \<Rightarrow> Some x | Text s \<Rightarrow> num s | Empty \<Rightarrow> None)"

text \<open>
  \<^verbatim>\<open>.astype("Int64")\<close> keeps a missing value and casts a number that is an int64; on
  any other number (a fraction, a value out of range) pandas raises
  \<^verbatim>\<open>TypeError: cannot safely cast non-equivalent float64 to int64\<close>.
\<close>

definition is_int64 :: "real \<Rightarrow> bool" where
  "is_int64 x = (of_int \<lfloor>x\<rfloor> = x \<and> - (2 ^ 63) \<le> x \<and> x < 2 ^ 63)"

definition int64_castable :: "real option \<Rightarrow> bool" where
  "int64_castable v = (case v of None \<Rightarrow> True | Some x \<Rightarrow> is_int64 x)"

definition to_Int64 :: "real option \<Rightarrow> int option" where
  "to_Int64 v = map_option floor v"

text \<open>A calendar date: year, month, day. The lexicographic order is the chronological one.\<close>

type_synonym date = "int \<times> int \<times> int"

definition leap_year :: "int \<Rightarrow> bool" where
  "leap_year y = (y mod 4 = 0 \<and> (y mod 100 \<noteq> 0 \<or> y mod 400 = 0))"

definition days_in_month :: "int \<Rightarrow> int \<Rightarrow> int" where
  "days_in_month y m =
     (if m = 2 then (if leap_year y then 29 else 28)
      else if m = 4 \<or> m = 6 \<or> m = 9 \<or> m = 11 then 30 else 31)"

definition valid_date :: "int \<Rightarrow> int \<Rightarrow> int \<Rightarrow> bool" where
  "valid_date y m d = (1 \<le> m \<and> m \<le> 12 \<and> 1 \<le> d \<and> d \<le> days_in_month y m)"

text \<open>
  The decimal digits of a natural number, the most significant first: Python's
  \<^verbatim>\<open>str\<close> of a non-negative integer.
\<close>

function decimal :: "nat \<Rightarrow> nat list" where
  "decimal n = (if n < 10 then [n] else decimal (n div 10) @ [n mod 10])"
  by pat_completeness auto
termination
  by (relation "measure id") auto

declare decimal.simps [simp del]

text \<open>
  The directives of \<^verbatim>\<open>strptime\<close> as the regular expressions they stand for, on a
  string of digits. \<^verbatim>\<open>%d\<close> is \<^verbatim>\<open>3[0-1]|[1-2]\d|0[1-9]|[1-9]\<close>: the day it reads and the
  rest of the string, by the first alternative that matches.
\<close>

fun match_day :: "nat list \<Rightarrow> (int \<times> nat list) option" where
  "match_day (a # b # r) =
     (if a = 3 \<and> b \<le> 1 then Some (30 + int b, r)
      else if a = 1 \<or> a = 2 then Some (10 * int a + int b, r)
      else if a = 0 \<and> 1 \<le> b then Some (int b, r)
      else if 1 \<le> a then Some (int a, b # r)
      else None)"
| "match_day [a] = (if 1 \<le> a then Some (int a, []) else None)"
| "match_day [] = None"

text \<open>
  \<^verbatim>\<open>%m\<close> is \<^verbatim>\<open>1[0-2]|0[1-9]|[1-9]\<close>: every way it can match, in the order in which the
  regular expression tries them.
\<close>

fun match_month :: "nat list \<Rightarrow> (int \<times> nat list) list" where
  "match_month (a # b # r) =
     (if a = 1 \<and> b \<le> 2 then [(10 + int b, r)] else [])
     @ (if a = 0 \<and> 1 \<le> b then [(int b, r)] else [])
     @ (if 1 \<le> a then [(int a, b # r)] else [])"
| "match_month [a] = (if 1 \<le> a then [(int a, [])] else [])"
| "match_month [] = []"

text \<open>The first way of reading the month after which a day can be read (backtracking).\<close>

fun first_match :: "(int \<times> nat list) list \<Rightarrow> (int \<times> int \<times> nat list) option" where
  "first_match [] = None"
| "first_match ((m, r) # cs) =
     (case match_day r of Some (d, rest) \<Rightarrow> Some (m, d, rest) | None \<Rightarrow> first_match cs)"

text \<open>
  Parsing with the format \<^verbatim>\<open>%Y%m%d\<close>: four digits of year, then the month and the day
  as above; the parse fails when a part of the string is left over, and when the three
  numbers read are not a calendar date.
\<close>

definition strptime_Ymd :: "nat list \<Rightarrow> date option" where
  "strptime_Ymd s =
     (if length s < 4 then None
      else (case first_match (match_month (drop 4 s)) of
              None \<Rightarrow> None
            | Some (m, d, rest) \<Rightarrow>
                (let y = foldl (\<lambda>acc c. 10 * acc + int c) 0 (take 4 s)
                 in if rest = [] \<and> valid_date y m d then Some (y, m, d) else None)))"

text \<open>
  \<^verbatim>\<open>pd.to_datetime(dict(year=..., month=..., day=...), errors="coerce")\<close>, as pandas 2
  computes it: a missing component gives NaT; otherwise the number
  \<^verbatim>\<open>year * 10000 + month * 100 + day\<close> is formed and its decimal string is parsed with
  the format \<^verbatim>\<open>%Y%m%d\<close>, so that components out of range can carry into one another.
  A string that does not parse gives NaT, and so does a date that the timestamp type
  cannot hold. Which dates it holds depends on the version of pandas, and is the
  parameter \<open>holds\<close>. The call never raises.
\<close>

definition to_datetime :: "(date \<Rightarrow> bool) \<Rightarrow> int option \<Rightarrow> int option \<Rightarrow> int \<Rightarrow> date option" where
  "to_datetime holds year month day =
     (case year of
        None \<Rightarrow> None
      | Some y \<Rightarrow>
          (case month of
             None \<Rightarrow> None
           | Some m \<Rightarrow>
               (let v = y * 10000 + m * 100 + day
                in if v < 0 then None
                   else (case strptime_Ymd (decimal (nat v)) of
                           None \<Rightarrow> None
                         | Some dt \<Rightarrow> if holds dt then Some dt else None))))"

text \<open>
  The dates of a nanosecond timestamp, the only one of pandas 2: from 1677-09-22 to
  2262-04-11.
\<close>

definition timestamp_min :: date where
  "timestamp_min = (1677, 9, 22)"

definition timestamp_max :: date where
  "timestamp_max = (2262, 4, 11)"

definition ns_range :: "date \<Rightarrow> bool" where
  "ns_range dt = (timestamp_min \<le> dt \<and> dt \<le> timestamp_max)"

text \<open>A row of the table that \<^verbatim>\<open>melt\<close> returns: the identifiers, the day label, the cell.\<close>

record melted =
  m_ESTACION :: cell
  m_MAGNITUD :: cell
  m_ANO :: cell
  m_MES :: cell
  m_DIA_STR :: string
  m_VALOR :: cell

text \<open>
  \<^verbatim>\<open>df.melt(id_vars=base_cols, value_vars=..., var_name="DIA_STR", value_name="VALOR")\<close>
  on a table that has the identifier columns: one block of rows per value column, in the
  order of \<open>value_vars\<close>, each block in the order of the table's rows.
\<close>

definition melt :: "frame \<Rightarrow> string list \<Rightarrow> melted list" where
  "melt df value_vars =
     concat (map (\<lambda>d. map (\<lambda>r.
         \<lparr>m_ESTACION = cell_at (columns df) r ''ESTACION'',
          m_MAGNITUD = cell_at (columns df) r ''MAGNITUD'',
          m_ANO = cell_at (columns df) r ''ANO'',
          m_MES = cell_at (columns df) r ''MES'',
          m_DIA_STR = d,
          m_VALOR = cell_at (columns df) r d\<rparr>) (rows df)) value_vars)"

text \<open>A row of the long table, with the columns in the order the program creates them.\<close>

record long_record =
  ESTACION :: cell
  MAGNITUD :: cell
  ANO :: "int option"
  MES :: "int option"
  DIA_STR :: string
  VALOR :: "real option"
  DIA :: int
  FECHA :: "date option"

text \<open>The columns DIA, ANO, MES, FECHA and VALOR of one row, once the casts are known to pass.\<close>

definition fila_larga :: "(string \<rightharpoonup> real) \<Rightarrow> (date \<Rightarrow> bool) \<Rightarrow> melted \<Rightarrow> long_record" where
  "fila_larga num holds m =
     (let dia = py_int (drop 1 (m_DIA_STR m));
          ano = to_Int64 (to_numeric num (m_ANO m));
          mes = to_Int64 (to_numeric num (m_MES m))
      in \<lparr>ESTACION = m_ESTACION m, MAGNITUD = m_MAGNITUD m, ANO = ano, MES = mes,
          DIA_STR = m_DIA_STR m, VALOR = to_numeric num (m_VALOR m), DIA = dia,
          FECHA = to_datetime holds ano mes dia\<rparr>)"

text \<open>
  \<^verbatim>\<open>a_formato_largo\<close>. \<^verbatim>\<open>melt\<close> raises when the table has a column named as its value
  column, and when an identifier column is absent. The casts of ANO and of MES work on
  whole columns of the melted table: one value that is not an int64 raises. The two
  parameters are those of pandas: the parser of number texts, and the dates that a
  timestamp holds.
\<close>

definition a_formato_largo ::
  "(string \<rightharpoonup> real) \<Rightarrow> (date \<Rightarrow> bool) \<Rightarrow> frame \<Rightarrow> error + long_record list" where
  "a_formato_largo num holds emisiones_filtrado =
     (let cols = columns emisiones_filtrado;
          day_cols = filter is_day_col cols
      in if ''VALOR'' \<in> set cols then Inl ValueError
         else if \<not> set base_cols \<subseteq> set cols
           then Inl (KeyError (filter (\<lambda>c. c \<notin> set cols) base_cols))
         else
           (let long_df = melt emisiones_filtrado day_cols
            in if \<not> list_all (\<lambda>m. int64_castable (to_numeric num (m_ANO m))) long_df
                 then Inl TypeError
               else if \<not> list_all (\<lambda>m. int64_castable (to_numeric num (m_MES m))) long_df
                 then Inl TypeError
               else Inr (map (fila_larga num holds) long_df)))"

section \<open>Cleaning and ordering\<close>

text \<open>
  The order in which \<^verbatim>\<open>sort_values\<close> on several columns arranges the cells of a key
  column: numbers by value, then texts by code point, then the missing ones
  (\<^verbatim>\<open>na_position="last"\<close>). The rank maps a cell into a lexicographic product with
  exactly this order, and a date likewise, NaT last.
\<close>

definition cell_rank :: "cell \<Rightarrow> nat \<times> real \<times> string" where
  "cell_rank c = (case c of Number x \<Rightarrow> (0, x, []) | Text s \<Rightarrow> (1, 0, s) | Empty \<Rightarrow> (2, 0, []))"

definition fecha_rank :: "date option \<Rightarrow> nat \<times> date" where
  "fecha_rank f = (case f of Some d \<Rightarrow> (0, d) | None \<Rightarrow> (1, (0, 0, 0)))"

definition sort_order :: "long_record \<Rightarrow> (nat \<times> real \<times> string) \<times> (nat \<times> real \<times> string) \<times> (nat \<times> date)" where
  "sort_order r = (cell_rank (ESTACION r), cell_rank (MAGNITUD r), fecha_rank (FECHA r))"

text \<open>
  \<^verbatim>\<open>limpiar_y_ordenar\<close>: \<^verbatim>\<open>dropna(subset=["FECHA"])\<close>, then
  \<^verbatim>\<open>sort_values(by=["ESTACION", "MAGNITUD", "FECHA"])\<close>, which on several columns is a
  lexicographic stable sort (numpy's \<^verbatim>\<open>lexsort\<close>).
\<close>

definition limpiar_y_ordenar :: "long_record list \<Rightarrow> long_record list" where
  "limpiar_y_ordenar long_df =
     (let df = filter (\<lambda>r. FECHA r \<noteq> None) long_df
      in sort_key sort_order df)"

section \<open>Aggregation\<close>

text \<open>
  \<^verbatim>\<open>groupby\<close>: a row whose key has a missing component belongs to no group
  (\<^verbatim>\<open>dropna=True\<close>), so the key of a row is optional. The group keys are the distinct keys
  of the rows, sorted (\<^verbatim>\<open>sort=True\<close>); the values of a group are the VALOR entries of its
  rows that are not missing, in the order of the rows.
\<close>

definition groupby_keys :: "('r \<Rightarrow> 'k option) \<Rightarrow> ('k \<Rightarrow> 'o::linorder) \<Rightarrow> 'r list \<Rightarrow> 'k list" where
  "groupby_keys key rank df = sort_key rank (remdups (List.map_filter key df))"

definition group_values :: "(long_record \<Rightarrow> 'k option) \<Rightarrow> long_record list \<Rightarrow> 'k \<Rightarrow> real list" where
  "group_values key df k = List.map_filter VALOR (filter (\<lambda>r. key r = Some k) df)"

text \<open>
  The aggregations of pandas over the values of a group that are not missing:
  \<^verbatim>\<open>count\<close>, \<^verbatim>\<open>mean\<close>, \<^verbatim>\<open>std\<close> (the sample deviation, missing for fewer than two
  values), \<^verbatim>\<open>min\<close> and \<^verbatim>\<open>max\<close>. All but the count are missing for no value.
\<close>

definition agg_count :: "real list \<Rightarrow> nat" where
  "agg_count xs = length xs"

definition agg_mean :: "real list \<Rightarrow> real option" where
  "agg_mean xs = (if xs = [] then None else Some (sum_list xs / real (length xs)))"

definition agg_std :: "real list \<Rightarrow> real option" where
  "agg_std xs =
     (if length xs < 2 then None
      else (let m = sum_list xs / real (length xs)
            in Some (sqrt (sum_list (map (\<lambda>x. (x - m)\<^sup>2) xs) / real (length xs - 1)))))"

definition agg_min :: "real list \<Rightarrow> real option" where
  "agg_min xs = (case xs of [] \<Rightarrow> None | x # ys \<Rightarrow> Some (fold min ys x))"

definition agg_max :: "real list \<Rightarrow> real option" where
  "agg_max xs = (case xs of [] \<Rightarrow> None | x # ys \<Rightarrow> Some (fold max ys x))"

text \<open>A row of the summary: the group's key and the five statistics, renamed as the program does.\<close>

record summary_row =
  grp_ESTACION :: cell
  grp_MAGNITUD :: cell
  col_count :: nat
  promedio :: "real option"
  desv_std :: "real option"
  col_min :: "real option"
  col_max :: "real option"

definition key_estacion_magnitud :: "long_record \<Rightarrow> (cell \<times> cell) option" where
  "key_estacion_magnitud r =
     (if ESTACION r = Empty \<or> MAGNITUD r = Empty then None else Some (ESTACION r, MAGNITUD r))"

definition rank2 :: "cell \<times> cell \<Rightarrow> (nat \<times> real \<times> string) \<times> (nat \<times> real \<times> string)" where
  "rank2 k = (cell_rank (fst k), cell_rank (snd k))"

text \<open>\<^verbatim>\<open>resumen_estadistico\<close>.\<close>

definition resumen_estadistico :: "long_record list \<Rightarrow> summary_row list" where
  "resumen_estadistico df =
     map (\<lambda>k. let vs = group_values key_estacion_magnitud df k
              in \<lparr>grp_ESTACION = fst k, grp_MAGNITUD = snd k, col_count = agg_count vs,
                  promedio = agg_mean vs, desv_std = agg_std vs,
                  col_min = agg_min vs, col_max = agg_max vs\<rparr>)
         (groupby_keys key_estacion_magnitud rank2 df)"

section \<open>Monthly pivots\<close>

text \<open>
  A pivoted table: the row labels, the column labels, and the cells that were given a
  value, by (row label, column label). A cell with no entry is missing (NaN), as is a
  cell whose entry is \<open>None\<close>.
\<close>

record ('i, 'c) matrix =
  m_index :: "'i list"
  m_columns :: "'c list"
  m_entries :: "(('i \<times> 'c) \<times> real option) list"

definition matrix_cell :: "('i, 'c) matrix \<Rightarrow> 'i \<Rightarrow> 'c \<Rightarrow> real option" where
  "matrix_cell M i c = (case map_of (m_entries M) (i, c) of Some v \<Rightarrow> v | None \<Rightarrow> None)"

text \<open>
  \<^verbatim>\<open>groupby(keys)["VALOR"].mean().reset_index()\<close>: one row per group, the key and the
  mean of the group's values, missing when the group has none.
\<close>

definition groupby_mean ::
  "(long_record \<Rightarrow> 'k option) \<Rightarrow> ('k \<Rightarrow> 'o::linorder) \<Rightarrow> long_record list \<Rightarrow> ('k \<times> real option) list" where
  "groupby_mean key rank df =
     map (\<lambda>k. (k, agg_mean (group_values key df k))) (groupby_keys key rank df)"

text \<open>
  \<^verbatim>\<open>DataFrame.pivot(index=..., columns=..., values="VALOR")\<close>: it raises
  \<^verbatim>\<open>ValueError\<close> when two rows have the same pair of labels; the labels of the result
  are the distinct ones of the rows, in the order of their ranks.
\<close>

definition pivot ::
  "('i \<Rightarrow> 'a::linorder) \<Rightarrow> ('c \<Rightarrow> 'b::linorder) \<Rightarrow> (('i \<times> 'c) \<times> real option) list
     \<Rightarrow> error + ('i, 'c) matrix" where
  "pivot rank_i rank_c es =
     (if \<not> distinct (map fst es) then Inl ValueError
      else Inr \<lparr>m_index = sort_key rank_i (remdups (map (\<lambda>e. fst (fst e)) es)),
                m_columns = sort_key rank_c (remdups (map (\<lambda>e. snd (fst e)) es)),
                m_entries = es\<rparr>)"

text \<open>
  \<^verbatim>\<open>DataFrame.pivot_table(index=..., columns=..., values="VALOR")\<close> followed by
  \<^verbatim>\<open>sort_index()\<close>: the rows are grouped by the pair of labels and averaged
  (\<^verbatim>\<open>aggfunc="mean"\<close>), a pair whose values are all missing is dropped
  (\<^verbatim>\<open>dropna=True\<close>), and rows with the same pair do not raise.
\<close>

definition pivot_table ::
  "('i \<Rightarrow> 'a::linorder) \<Rightarrow> ('c \<Rightarrow> 'b::linorder) \<Rightarrow> (('i \<times> 'c) \<times> real option) list
     \<Rightarrow> ('i, 'c) matrix" where
  "pivot_table rank_i rank_c es =
     (let present = filter (\<lambda>e. snd e \<noteq> None) es;
          ks = remdups (map fst present)
      in \<lparr>m_index = sort_key rank_i (remdups (map fst ks)),
          m_columns = sort_key rank_c (remdups (map snd ks)),
          m_entries = map (\<lambda>k. (k, agg_mean (List.map_filter snd (filter (\<lambda>e. fst e = k) present)))) ks\<rparr>)"

text \<open>
  \<^verbatim>\<open>sort_index()\<close> on a table whose row labels are cells: the labels are compared with
  one another, and Python raises \<^verbatim>\<open>TypeError\<close> on comparing a number with a text.
\<close>

definition is_number :: "cell \<Rightarrow> bool" where
  "is_number c = (case c of Number x \<Rightarrow> True | Text s \<Rightarrow> False | Empty \<Rightarrow> False)"

definition is_text :: "cell \<Rightarrow> bool" where
  "is_text c = (case c of Number x \<Rightarrow> False | Text s \<Rightarrow> True | Empty \<Rightarrow> False)"

definition sort_index :: "(cell, 'c) matrix \<Rightarrow> error + (cell, 'c) matrix" where
  "sort_index M =
     (if list_ex is_number (m_index M) \<and> list_ex is_text (m_index M) then Inl TypeError
      else Inr (M\<lparr>m_index := sort_key cell_rank (m_index M)\<rparr>))"

definition key_estacion_mes :: "long_record \<Rightarrow> (cell \<times> int) option" where
  "key_estacion_mes r =
     (case MES r of None \<Rightarrow> None
      | Some m \<Rightarrow> if ESTACION r = Empty then None else Some (ESTACION r, m))"

definition rank_estacion_mes :: "cell \<times> int \<Rightarrow> (nat \<times> real \<times> string) \<times> int" where
  "rank_estacion_mes k = (cell_rank (fst k), snd k)"

text \<open>
  \<^verbatim>\<open>medias_mensuales_por_contaminante_y_ano\<close>. A comparison with a missing ANO is not
  true, so the row is not selected.
\<close>

definition medias_mensuales_por_contaminante_y_ano ::
  "long_record list \<Rightarrow> int \<Rightarrow> int \<Rightarrow> error + (cell, int) matrix" where
  "medias_mensuales_por_contaminante_y_ano df_long contaminante ano =
     (let tmp = filter (\<lambda>r. MAGNITUD r = Number (of_int contaminante) \<and> ANO r = Some ano) df_long
      in case pivot cell_rank id (groupby_mean key_estacion_mes rank_estacion_mes tmp) of
           Inl e \<Rightarrow> Inl e
         | Inr out \<Rightarrow> sort_index out)"

definition key_ano_mes_magnitud :: "long_record \<Rightarrow> ((int \<times> int) \<times> cell) option" where
  "key_ano_mes_magnitud r =
     (case ANO r of None \<Rightarrow> None
      | Some a \<Rightarrow>
          (case MES r of None \<Rightarrow> None
           | Some m \<Rightarrow> if MAGNITUD r = Empty then None else Some ((a, m), MAGNITUD r)))"

definition rank_ano_mes_magnitud :: "(int \<times> int) \<times> cell \<Rightarrow> (int \<times> int) \<times> (nat \<times> real \<times> string)" where
  "rank_ano_mes_magnitud k = (fst k, cell_rank (snd k))"

text \<open>\<^verbatim>\<open>medidas_mensuales_por_estacion\<close>, with the optional year.\<close>

definition medidas_mensuales_por_estacion ::
  "long_record list \<Rightarrow> int \<Rightarrow> int option \<Rightarrow> (int \<times> int, cell) matrix" where
  "medidas_mensuales_por_estacion df_long estacion_codigo ano =
     (let tmp = filter (\<lambda>r. ESTACION r = Number (of_int estacion_codigo)) df_long;
          tmp = (case ano of None \<Rightarrow> tmp | Some a \<Rightarrow> filter (\<lambda>r. ANO r = Some a) tmp)
      in pivot_table id cell_rank (groupby_mean key_ano_mes_magnitud rank_ano_mes_magnitud tmp))"

section \<open>Ingestion\<close>

text \<open>\<^verbatim>\<open>f.startswith("emisiones-") and f.endswith(".csv")\<close>.\<close>

definition matches_pattern :: "string \<Rightarrow> bool" where
  "matches_pattern f = (prefix ''emisiones-'' f \<and> suffix ''.csv'' f)"

text \<open>\<^verbatim>\<open>df[name] = v\<close> with a scalar: the column is overwritten, or appended as the last one.\<close>

definition set_column :: "string \<Rightarrow> cell \<Rightarrow> frame \<Rightarrow> frame" where
  "set_column name v df =
     (if name \<in> set (columns df)
      then \<lparr>columns = columns df,
            rows = map (\<lambda>r. map (\<lambda>c. if c = name then v else cell_at (columns df) r c) (columns df)) (rows df)\<rparr>
      else \<lparr>columns = columns df @ [name],
            rows = map (\<lambda>r. map (cell_at (columns df) r) (columns df) @ [v]) (rows df)\<rparr>)"

text \<open>The labels of a list in the order of their first occurrence.\<close>

definition first_seen :: "'a list \<Rightarrow> 'a list" where
  "first_seen xs = rev (remdups (rev xs))"

text \<open>
  \<^verbatim>\<open>pd.concat(dfs, ignore_index=True)\<close>: the columns are the union of the tables'
  columns in the order of first occurrence, the rows follow in the order of the tables,
  and a cell of a column that a table does not have is missing.
\<close>

definition concat_frames :: "frame list \<Rightarrow> frame" where
  "concat_frames dfs =
     (let cols = first_seen (concat (map columns dfs))
      in \<lparr>columns = cols,
          rows = concat (map (\<lambda>df. map (\<lambda>r. map (cell_at (columns df) r) cols) (rows df)) dfs)\<rparr>)"

text \<open>
  The loop of \<^verbatim>\<open>cargar_todo\<close> over the files: each one is read and tagged with its
  name; the first read that raises ends the loop. The file system is a parameter:
  \<open>read_emisiones_csv fn\<close> is the table that \<^verbatim>\<open>pd.read_csv\<close> returns for the file of
  the directory, \<open>None\<close> when it raises.
\<close>

fun read_files :: "(string \<rightharpoonup> frame) \<Rightarrow> string list \<Rightarrow> error + frame list" where
  "read_files read_emisiones_csv [] = Inr []"
| "read_files read_emisiones_csv (fn # fns) =
     (case read_emisiones_csv fn of
        None \<Rightarrow> Inl (ReadError fn)
      | Some df \<Rightarrow>
          (case read_files read_emisiones_csv fns of
             Inl e \<Rightarrow> Inl e
           | Inr dfs \<Rightarrow> Inr (set_column ''__ARCHIVO__'' (Text fn) df # dfs)))"

text \<open>
  \<^verbatim>\<open>cargar_todo\<close>; \<open>listing\<close> is what \<^verbatim>\<open>os.listdir(data_dir)\<close> returns. Python's
  \<^verbatim>\<open>sorted\<close> on strings is the lexicographic order by code point.
\<close>

definition cargar_todo :: "(string \<rightharpoonup> frame) \<Rightarrow> string list \<Rightarrow> error + frame" where
  "cargar_todo read_emisiones_csv listing =
     (let files = sort (filter matches_pattern listing)
      in if files = [] then Inl RuntimeError
         else (case read_files read_emisiones_csv files of
                 Inl e \<Rightarrow> Inl e
               | Inr dfs \<Rightarrow> Inr (concat_frames dfs)))"

section \<open>Properties of the schema filter\<close>

lemma cell_at_map:
  "c \<in> set cols \<Longrightarrow> cell_at cols (map f cols) c = f c"
  by (simp add: cell_at_def map_of_zip_map)

lemma filtrar_columnas_ok:
  assumes "set base_cols \<subseteq> set (columns raw)"
  shows "filtrar_columnas raw =
     Inr (select_columns (base_cols @ sort_key day_number (filter is_day_col (columns raw))) raw)"
proof -
  have "filter (\<lambda>c. c \<notin> set (columns raw)) base_cols = []"
    using assms by (auto simp: filter_empty_conv)
  then show ?thesis by (simp add: filtrar_columnas_def Let_def)
qed

lemma filtrar_columnas_fail:
  assumes "\<not> set base_cols \<subseteq> set (columns raw)"
  shows "filtrar_columnas raw =
     Inl (FaltanColumnasBase (filter (\<lambda>c. c \<notin> set (columns raw)) base_cols))"
proof -
  have "filter (\<lambda>c. c \<notin> set (columns raw)) base_cols \<noteq> []"
    using assms by (auto simp: filter_empty_conv)
  then show ?thesis by (simp add: filtrar_columnas_def Let_def)
qed

lemma day_number_example:
  "sort_key day_number [''D10'', ''D02'', ''D01''] = [''D01'', ''D02'', ''D10'']"
  by (simp add: day_number_def py_int_def digit_val_def)

text \<open>
  Claim C6. For every table that has the four identifier columns, \<^verbatim>\<open>filtrar_columnas\<close>
  returns a table whose columns are the four identifiers followed by the day columns of
  the input, each once, sorted by the number of their suffix; nothing else is a column
  of the result, every row is kept and each kept cell is the cell of the input. Day
  columns found as D10, D02, D01 come out as D01, D02, D10.
\<close>

theorem filtrar_columnas_orders_columns:
  assumes "set base_cols \<subseteq> set (columns raw)"
  shows "\<exists>df ds. filtrar_columnas raw = Inr df
      \<and> columns df = base_cols @ ds
      \<and> mset ds = mset (filter is_day_col (columns raw))
      \<and> sorted (map day_number ds)
      \<and> (filter is_day_col (columns raw) = [''D10'', ''D02'', ''D01'']
           \<longrightarrow> ds = [''D01'', ''D02'', ''D10''])
      \<and> length (rows df) = length (rows raw)
      \<and> (\<forall>i < length (rows raw).
            length (rows df ! i) = length (columns df)
            \<and> (\<forall>c \<in> set (columns df).
                 cell_at (columns df) (rows df ! i) c = cell_at (columns raw) (rows raw ! i) c))"
proof -
  let ?ds = "sort_key day_number (filter is_day_col (columns raw))"
  let ?df = "select_columns (base_cols @ ?ds) raw"
  have 1: "filtrar_columnas raw = Inr ?df" by (rule filtrar_columnas_ok [OF assms])
  have 2: "columns ?df = base_cols @ ?ds" by (simp add: select_columns_def)
  have 3: "mset ?ds = mset (filter is_day_col (columns raw))" by simp
  have 4: "sorted (map day_number ?ds)" by (rule sorted_sort_key)
  have 5: "filter is_day_col (columns raw) = [''D10'', ''D02'', ''D01'']
           \<longrightarrow> ?ds = [''D01'', ''D02'', ''D10'']"
    using day_number_example by simp
  have 6: "length (rows ?df) = length (rows raw)" by (simp add: select_columns_def)
  have 7: "\<forall>i < length (rows raw).
            length (rows ?df ! i) = length (columns ?df)
            \<and> (\<forall>c \<in> set (columns ?df).
                 cell_at (columns ?df) (rows ?df ! i) c = cell_at (columns raw) (rows raw ! i) c)"
  proof (intro allI impI conjI ballI)
    fix i assume i: "i < length (rows raw)"
    have row: "rows ?df ! i = map (cell_at (columns raw) (rows raw ! i)) (base_cols @ ?ds)"
      using i by (simp add: select_columns_def del: map_append)
    show "length (rows ?df ! i) = length (columns ?df)"
      by (simp only: row 2 length_map)
    fix c assume "c \<in> set (columns ?df)"
    then have "c \<in> set (base_cols @ ?ds)" by (simp only: 2)
    then show "cell_at (columns ?df) (rows ?df ! i) c = cell_at (columns raw) (rows raw ! i) c"
      by (simp only: row 2 cell_at_map)
  qed
  from 1 2 3 4 5 6 7 show ?thesis by blast
qed

theorem filtrar_columnas_orders_columns_witness:
  "set base_cols \<subseteq> set (columns
       \<lparr>columns = [''D10'', ''ESTACION'', ''OTRA'', ''MAGNITUD'', ''D02'', ''ANO'', ''MES'', ''D01''],
        rows = [[Number 10, Number 4, Text ''x'', Number 1, Number 2, Number 2016, Number 1, Empty]]\<rparr>)
   \<and> filtrar_columnas
       \<lparr>columns = [''D10'', ''ESTACION'', ''OTRA'', ''MAGNITUD'', ''D02'', ''ANO'', ''MES'', ''D01''],
        rows = [[Number 10, Number 4, Text ''x'', Number 1, Number 2, Number 2016, Number 1, Empty]]\<rparr>
     = Inr \<lparr>columns = [''ESTACION'', ''MAGNITUD'', ''ANO'', ''MES'', ''D01'', ''D02'', ''D10''],
            rows = [[Number 4, Number 1, Number 2016, Number 1, Empty, Number 2, Number 10]]\<rparr>"
  using filtrar_columnas_orders_columns [of
       "\<lparr>columns = [''D10'', ''ESTACION'', ''OTRA'', ''MAGNITUD'', ''D02'', ''ANO'', ''MES'', ''D01''],
        rows = [[Number 10, Number 4, Text ''x'', Number 1, Number 2, Number 2016, Number 1, Empty]]\<rparr>"]
  by (simp add: filtrar_columnas_def base_cols_def is_digit_def day_number_def py_int_def
      digit_val_def select_columns_def cell_at_def)

text \<open>
  Claim C7. \<^verbatim>\<open>filtrar_columnas\<close> fails if and only if one of the four identifier columns
  is absent from the table; the error is then the one that lists the missing base
  columns, it lists exactly the identifiers that the table lacks, and no table is
  returned.
\<close>

theorem filtrar_columnas_missing_iff:
  "((\<exists>e. filtrar_columnas raw = Inl e) = (\<not> set base_cols \<subseteq> set (columns raw)))
   \<and> (\<forall>e. filtrar_columnas raw = Inl e \<longrightarrow>
         (\<exists>missing. e = FaltanColumnasBase missing
            \<and> set missing = set base_cols - set (columns raw))
         \<and> (\<forall>df. filtrar_columnas raw \<noteq> Inr df))"
proof (cases "set base_cols \<subseteq> set (columns raw)")
  case True
  then show ?thesis by (simp add: filtrar_columnas_ok)
next
  case False
  then show ?thesis by (auto simp: filtrar_columnas_fail)
qed

theorem filtrar_columnas_missing_iff_witness:
  "\<not> set base_cols \<subseteq> set (columns
       \<lparr>columns = [''ESTACION'', ''D01'', ''MES''], rows = [[Number 4, Number 7, Number 1]]\<rparr>)
   \<and> filtrar_columnas
       \<lparr>columns = [''ESTACION'', ''D01'', ''MES''], rows = [[Number 4, Number 7, Number 1]]\<rparr>
       = Inl (FaltanColumnasBase [''MAGNITUD'', ''ANO''])
   \<and> (\<exists>df. filtrar_columnas
         \<lparr>columns = [''ESTACION'', ''MAGNITUD'', ''ANO'', ''MES''], rows = []\<rparr> = Inr df)"
  using filtrar_columnas_missing_iff [of
       "\<lparr>columns = [''ESTACION'', ''D01'', ''MES''], rows = [[Number 4, Number 7, Number 1]]\<rparr>"]
  by (simp add: filtrar_columnas_def base_cols_def is_digit_def day_number_def py_int_def
      digit_val_def select_columns_def cell_at_def)


section \<open>Properties of the reshape\<close>

lemma melt_product:
  "melt df vs = map (\<lambda>(d, r).
         \<lparr>m_ESTACION = cell_at (columns df) r ''ESTACION'',
          m_MAGNITUD = cell_at (columns df) r ''MAGNITUD'',
          m_ANO = cell_at (columns df) r ''ANO'',
          m_MES = cell_at (columns df) r ''MES'',
          m_DIA_STR = d,
          m_VALOR = cell_at (columns df) r d\<rparr>) (List.product vs (rows df))"
  by (simp add: melt_def product_concat_map map_concat comp_def)

lemma length_melt: "length (melt df vs) = length (rows df) * length vs"
  by (simp add: melt_product)

lemma melt_elem:
  assumes "m \<in> set (melt df vs)"
  shows "\<exists>d r. d \<in> set vs \<and> r \<in> set (rows df)
         \<and> m_ANO m = cell_at (columns df) r ''ANO''
         \<and> m_MES m = cell_at (columns df) r ''MES''
         \<and> m_DIA_STR m = d"
  using assms by (fastforce simp: melt_product)

lemma a_formato_largo_Inr_iff:
  "(a_formato_largo num holds df = Inr long) =
     (''VALOR'' \<notin> set (columns df) \<and> set base_cols \<subseteq> set (columns df)
      \<and> list_all (\<lambda>m. int64_castable (to_numeric num (m_ANO m))) (melt df (filter is_day_col (columns df)))
      \<and> list_all (\<lambda>m. int64_castable (to_numeric num (m_MES m))) (melt df (filter is_day_col (columns df)))
      \<and> long = map (fila_larga num holds) (melt df (filter is_day_col (columns df))))"
  by (auto simp: a_formato_largo_def Let_def)

lemma filtrar_columnas_Inr:
  assumes "filtrar_columnas raw = Inr df"
  shows "set base_cols \<subseteq> set (columns raw)"
    and "df = select_columns (base_cols @ sort_key day_number (filter is_day_col (columns raw))) raw"
proof -
  show s: "set base_cols \<subseteq> set (columns raw)"
  proof (rule ccontr)
    assume "\<not> set base_cols \<subseteq> set (columns raw)"
    from filtrar_columnas_fail [OF this] assms show False by simp
  qed
  from filtrar_columnas_ok [OF s] assms
  show "df = select_columns (base_cols @ sort_key day_number (filter is_day_col (columns raw))) raw"
    by simp
qed

lemma is_day_col_length: "is_day_col c \<Longrightarrow> length c = 3"
  by (cases c rule: is_day_col.cases) auto

lemma filtered_columns:
  assumes "filtrar_columnas raw = Inr df"
  shows "set base_cols \<subseteq> set (columns df)" and "''VALOR'' \<notin> set (columns df)"
    and "filter is_day_col (columns df) = sort_key day_number (filter is_day_col (columns raw))"
proof -
  have c: "columns df = base_cols @ sort_key day_number (filter is_day_col (columns raw))"
    using filtrar_columnas_Inr(2) [OF assms] by (simp add: select_columns_def)
  show "set base_cols \<subseteq> set (columns df)" by (simp add: c)
  show "''VALOR'' \<notin> set (columns df)"
    using is_day_col_length [of "''VALOR''"] by (auto simp: c base_cols_def)
  have "filter is_day_col (sort_key day_number (filter is_day_col (columns raw)))
        = sort_key day_number (filter is_day_col (columns raw))"
    by (rule filter_True) simp
  moreover have "filter is_day_col base_cols = []" by (simp add: base_cols_def)
  ultimately show "filter is_day_col (columns df) = sort_key day_number (filter is_day_col (columns raw))"
    by (simp add: c)
qed

lemma a_formato_largo_returns:
  assumes "''VALOR'' \<notin> set (columns df)" and "set base_cols \<subseteq> set (columns df)"
    and "\<forall>r \<in> set (rows df). int64_castable (to_numeric num (cell_at (columns df) r ''ANO''))
                            \<and> int64_castable (to_numeric num (cell_at (columns df) r ''MES''))"
  shows "a_formato_largo num holds df = Inr (map (fila_larga num holds) (melt df (filter is_day_col (columns df))))"
proof -
  have "list_all (\<lambda>m. int64_castable (to_numeric num (m_ANO m))) (melt df (filter is_day_col (columns df)))"
    unfolding list_all_iff using assms(3) melt_elem by metis
  moreover have "list_all (\<lambda>m. int64_castable (to_numeric num (m_MES m))) (melt df (filter is_day_col (columns df)))"
    unfolding list_all_iff using assms(3) melt_elem by metis
  ultimately show ?thesis using assms(1,2) by (simp add: a_formato_largo_Inr_iff)
qed

lemma to_numeric_missing:
  "to_numeric num Empty = None"
  "num s = None \<Longrightarrow> to_numeric num (Text s) = None"
  "to_numeric num (Number x) = Some x"
  by (simp_all add: to_numeric_def)

lemma fila_larga_melt_nth:
  assumes "k < length (List.product vs (rows df))"
  shows "case List.product vs (rows df) ! k of (d, r) \<Rightarrow>
           fila_larga num holds (melt df vs ! k) =
             \<lparr>ESTACION = cell_at (columns df) r ''ESTACION'',
              MAGNITUD = cell_at (columns df) r ''MAGNITUD'',
              ANO = to_Int64 (to_numeric num (cell_at (columns df) r ''ANO'')),
              MES = to_Int64 (to_numeric num (cell_at (columns df) r ''MES'')),
              DIA_STR = d,
              VALOR = to_numeric num (cell_at (columns df) r d),
              DIA = day_number d,
              FECHA = to_datetime holds (to_Int64 (to_numeric num (cell_at (columns df) r ''ANO'')))
                        (to_Int64 (to_numeric num (cell_at (columns df) r ''MES''))) (day_number d)\<rparr>"
  using assms
  by (simp add: melt_product fila_larga_def Let_def day_number_def split: prod.splits)

lemma filtered_returns:
  assumes "filtrar_columnas raw = Inr df"
    and "list_all (\<lambda>r. int64_castable (to_numeric num (cell_at (columns df) r ''ANO''))
                      \<and> int64_castable (to_numeric num (cell_at (columns df) r ''MES''))) (rows df)"
  shows "a_formato_largo num holds df = Inr (map (fila_larga num holds) (melt df (filter is_day_col (columns df))))"
  using assms(2) filtered_columns(1,2) [OF assms(1)]
  by (intro a_formato_largo_returns) (simp_all add: list_all_iff)

text \<open>
  Where the casts of ANO and MES pass, the reshape gives one record for each pair of a
  day column and a row, with the pair's label, the row's identifiers, and as VALOR the
  number of the pair's cell, missing for a cell that is empty or does not parse.
\<close>

lemma reshape_when_casts_pass:
  assumes "filtrar_columnas raw = Inr df"
    and "list_all (\<lambda>r. int64_castable (to_numeric num (cell_at (columns df) r ''ANO''))
                      \<and> int64_castable (to_numeric num (cell_at (columns df) r ''MES''))) (rows df)"
  shows "\<exists>long. a_formato_largo num holds df = Inr long
     \<and> length long = length (rows df) * length (filter is_day_col (columns df))
     \<and> (\<forall>k < length long.
          (case List.product (filter is_day_col (columns df)) (rows df) ! k of (d, r) \<Rightarrow>
             DIA_STR (long ! k) = d
           \<and> ESTACION (long ! k) = cell_at (columns df) r ''ESTACION''
           \<and> MAGNITUD (long ! k) = cell_at (columns df) r ''MAGNITUD''
           \<and> VALOR (long ! k) = to_numeric num (cell_at (columns df) r d)
           \<and> (cell_at (columns df) r d = Empty \<longrightarrow> VALOR (long ! k) = None)
           \<and> (\<forall>s. cell_at (columns df) r d = Text s \<longrightarrow> num s = None \<longrightarrow> VALOR (long ! k) = None)
           \<and> (\<forall>x. cell_at (columns df) r d = Number x \<longrightarrow> VALOR (long ! k) = Some x)))"
proof -
  let ?vs = "filter is_day_col (columns df)"
  let ?long = "map (fila_larga num holds) (melt df ?vs)"
  have ret: "a_formato_largo num holds df = Inr ?long" by (rule filtered_returns [OF assms])
  have len: "length ?long = length (rows df) * length ?vs" by (simp add: length_melt)
  have cells: "\<forall>k < length ?long.
          (case List.product ?vs (rows df) ! k of (d, r) \<Rightarrow>
             DIA_STR (?long ! k) = d
           \<and> ESTACION (?long ! k) = cell_at (columns df) r ''ESTACION''
           \<and> MAGNITUD (?long ! k) = cell_at (columns df) r ''MAGNITUD''
           \<and> VALOR (?long ! k) = to_numeric num (cell_at (columns df) r d)
           \<and> (cell_at (columns df) r d = Empty \<longrightarrow> VALOR (?long ! k) = None)
           \<and> (\<forall>s. cell_at (columns df) r d = Text s \<longrightarrow> num s = None \<longrightarrow> VALOR (?long ! k) = None)
           \<and> (\<forall>x. cell_at (columns df) r d = Number x \<longrightarrow> VALOR (?long ! k) = Some x))"
  proof (intro allI impI)
    fix k assume "k < length ?long"
    then have k: "k < length (List.product ?vs (rows df))" by (simp add: melt_product)
    then have km: "k < length (melt df ?vs)" by (simp add: melt_product)
    obtain d r where dr: "List.product ?vs (rows df) ! k = (d, r)" by (cases "List.product ?vs (rows df) ! k")
    have row: "?long ! k = \<lparr>ESTACION = cell_at (columns df) r ''ESTACION'',
              MAGNITUD = cell_at (columns df) r ''MAGNITUD'',
              ANO = to_Int64 (to_numeric num (cell_at (columns df) r ''ANO'')),
              MES = to_Int64 (to_numeric num (cell_at (columns df) r ''MES'')),
              DIA_STR = d,
              VALOR = to_numeric num (cell_at (columns df) r d),
              DIA = day_number d,
              FECHA = to_datetime holds (to_Int64 (to_numeric num (cell_at (columns df) r ''ANO'')))
                        (to_Int64 (to_numeric num (cell_at (columns df) r ''MES''))) (day_number d)\<rparr>"
      using fila_larga_melt_nth [OF k, of num holds] km by (simp add: dr)
    show "case List.product ?vs (rows df) ! k of (d, r) \<Rightarrow>
             DIA_STR (?long ! k) = d
           \<and> ESTACION (?long ! k) = cell_at (columns df) r ''ESTACION''
           \<and> MAGNITUD (?long ! k) = cell_at (columns df) r ''MAGNITUD''
           \<and> VALOR (?long ! k) = to_numeric num (cell_at (columns df) r d)
           \<and> (cell_at (columns df) r d = Empty \<longrightarrow> VALOR (?long ! k) = None)
           \<and> (\<forall>s. cell_at (columns df) r d = Text s \<longrightarrow> num s = None \<longrightarrow> VALOR (?long ! k) = None)
           \<and> (\<forall>x. cell_at (columns df) r d = Number x \<longrightarrow> VALOR (?long ! k) = Some x)"
      unfolding dr row by (simp add: to_numeric_missing)
  qed
  from ret len cells show ?thesis by blast
qed

text \<open>
  Claim C2 says that \<^verbatim>\<open>a_formato_largo\<close> gives one long record per row and day column
  for every filtered table, and never raises on the content of a cell. The code fails
  it: on the filtered table below, whose ANO is the number 2016.5, the cast of the ANO
  column raises and no record is produced, while the same table with a text for ANO
  is reshaped, the year missing. (No text parses here, and the dates are those of a
  nanosecond timestamp.)
\<close>

theorem a_formato_largo_raises_on_fractional_ano:
  "filtrar_columnas
     \<lparr>columns = [''ESTACION'', ''MAGNITUD'', ''ANO'', ''MES'', ''D01''],
      rows = [[Number 4, Number 1, Number (4033 / 2), Number 1, Number 7]]\<rparr>
   = Inr \<lparr>columns = [''ESTACION'', ''MAGNITUD'', ''ANO'', ''MES'', ''D01''],
          rows = [[Number 4, Number 1, Number (4033 / 2), Number 1, Number 7]]\<rparr>
   \<and> a_formato_largo Map.empty ns_range
     \<lparr>columns = [''ESTACION'', ''MAGNITUD'', ''ANO'', ''MES'', ''D01''],
      rows = [[Number 4, Number 1, Number (4033 / 2), Number 1, Number 7]]\<rparr>
   = Inl TypeError
   \<and> map_sum id (map (\<lambda>r. (ANO r, MES r, DIA r, VALOR r, FECHA r)))
       (a_formato_largo Map.empty ns_range
         \<lparr>columns = [''ESTACION'', ''MAGNITUD'', ''ANO'', ''MES'', ''D01''],
          rows = [[Number 4, Number 1, Text ''dos mil'', Number 1, Number 7]]\<rparr>)
   = Inr [(None, Some 1, 1, Some 7, None)]"
  by (simp add: filtrar_columnas_def base_cols_def is_digit_def day_number_def py_int_def
      digit_val_def select_columns_def cell_at_def a_formato_largo_def melt_def
      int64_castable_def to_numeric_def is_int64_def fila_larga_def to_Int64_def Let_def
      to_datetime_def)

section \<open>Properties of the date synthesis\<close>

lemma FECHA_fila_larga:
  "FECHA (fila_larga num holds m)
     = to_datetime holds (ANO (fila_larga num holds m)) (MES (fila_larga num holds m))
         (DIA (fila_larga num holds m))"
  by (simp add: fila_larga_def Let_def)

lemma long_record_FECHA:
  assumes "a_formato_largo num holds df = Inr long" and "r \<in> set long"
  shows "FECHA r = to_datetime holds (ANO r) (MES r) (DIA r)"
proof -
  from assms(1) have "long = map (fila_larga num holds) (melt df (filter is_day_col (columns df)))"
    by (simp add: a_formato_largo_Inr_iff)
  with assms(2) obtain m where "r = fila_larga num holds m" by auto
  then show ?thesis by (simp add: FECHA_fila_larga)
qed

lemma long_record_label:
  assumes "a_formato_largo num holds df = Inr long" and "r \<in> set long"
  shows "is_day_col (DIA_STR r) \<and> DIA r = day_number (DIA_STR r)"
proof -
  from assms(1) have "long = map (fila_larga num holds) (melt df (filter is_day_col (columns df)))"
    by (simp add: a_formato_largo_Inr_iff)
  with assms(2) obtain m where m: "m \<in> set (melt df (filter is_day_col (columns df)))"
    and r: "r = fila_larga num holds m" by auto
  from melt_elem [OF m] have "is_day_col (m_DIA_STR m)" by auto
  then show ?thesis by (simp add: r fila_larga_def Let_def day_number_def)
qed

lemma to_datetime_None:
  "to_datetime holds None m d = None" "to_datetime holds y None d = None"
  by (simp_all add: to_datetime_def split: option.splits)

text \<open>A date that is given is a calendar date that the timestamp holds.\<close>

lemma strptime_Ymd_valid:
  "strptime_Ymd s = Some dt \<Longrightarrow> valid_date (fst dt) (fst (snd dt)) (snd (snd dt))"
  by (auto simp: strptime_Ymd_def Let_def split: if_splits option.splits)

lemma to_datetime_valid:
  assumes "to_datetime holds y m d = Some dt"
  shows "valid_date (fst dt) (fst (snd dt)) (snd (snd dt)) \<and> holds dt"
  using assms strptime_Ymd_valid
  by (auto simp: to_datetime_def Let_def split: option.splits if_splits)

text \<open>
  Claim C3 says that the date synthesis of \<^verbatim>\<open>a_formato_largo\<close> never raises and gives a
  missing date, never another valid one, whenever year, month and day are not a
  calendar date. The code fails it twice. On the first table below, whose MES is the
  number 2.5, the cast of the MES column raises. On the second, the row with year 2021
  and month 101 gets the dates 2022-01-01, 2022-01-29 and 2022-01-30 for the days 1, 29
  and 30: the month carries into the year. The two dates that the claim names come out
  as it says: day 30 of month 2 of 2021 has no date, day 29 of month 2 of 2020 has
  one. (No text parses here, and the dates are those of a nanosecond timestamp.)
\<close>

theorem a_formato_largo_fecha_failures:
  "a_formato_largo Map.empty ns_range
     \<lparr>columns = [''ESTACION'', ''MAGNITUD'', ''ANO'', ''MES'', ''D30''],
      rows = [[Number 4, Number 1, Number 2021, Number (5 / 2), Number 7]]\<rparr>
   = Inl TypeError
   \<and> map_sum id (map (\<lambda>r. (ANO r, MES r, DIA r, FECHA r)))
       (a_formato_largo Map.empty ns_range
         \<lparr>columns = [''ESTACION'', ''MAGNITUD'', ''ANO'', ''MES'', ''D01'', ''D29'', ''D30''],
          rows = [[Number 4, Number 1, Number 2021, Number 101, Number 7, Number 8, Number 9],
                  [Number 4, Number 1, Number 2021, Number 2, Number 7, Number 8, Number 9],
                  [Number 4, Number 1, Number 2020, Number 2, Number 7, Number 8, Number 9]]\<rparr>)
   = Inr [(Some 2021, Some 101, 1, Some (2022, 1, 1)),
          (Some 2021, Some 2, 1, Some (2021, 2, 1)),
          (Some 2020, Some 2, 1, Some (2020, 2, 1)),
          (Some 2021, Some 101, 29, Some (2022, 1, 29)),
          (Some 2021, Some 2, 29, None),
          (Some 2020, Some 2, 29, Some (2020, 2, 29)),
          (Some 2021, Some 101, 30, Some (2022, 1, 30)),
          (Some 2021, Some 2, 30, None),
          (Some 2020, Some 2, 30, None)]"
proof (rule conjI)
  show "a_formato_largo Map.empty ns_range
     \<lparr>columns = [''ESTACION'', ''MAGNITUD'', ''ANO'', ''MES'', ''D30''],
      rows = [[Number 4, Number 1, Number 2021, Number (5 / 2), Number 7]]\<rparr>
   = Inl TypeError"
    by (simp add: base_cols_def is_digit_def cell_at_def a_formato_largo_def melt_def
        int64_castable_def to_numeric_def is_int64_def)
  show "map_sum id (map (\<lambda>r. (ANO r, MES r, DIA r, FECHA r)))
       (a_formato_largo Map.empty ns_range
         \<lparr>columns = [''ESTACION'', ''MAGNITUD'', ''ANO'', ''MES'', ''D01'', ''D29'', ''D30''],
          rows = [[Number 4, Number 1, Number 2021, Number 101, Number 7, Number 8, Number 9],
                  [Number 4, Number 1, Number 2021, Number 2, Number 7, Number 8, Number 9],
                  [Number 4, Number 1, Number 2020, Number 2, Number 7, Number 8, Number 9]]\<rparr>)
   = Inr [(Some 2021, Some 101, 1, Some (2022, 1, 1)),
          (Some 2021, Some 2, 1, Some (2021, 2, 1)),
          (Some 2020, Some 2, 1, Some (2020, 2, 1)),
          (Some 2021, Some 101, 29, Some (2022, 1, 29)),
          (Some 2021, Some 2, 29, None),
          (Some 2020, Some 2, 29, Some (2020, 2, 29)),
          (Some 2021, Some 101, 30, Some (2022, 1, 30)),
          (Some 2021, Some 2, 30, None),
          (Some 2020, Some 2, 30, None)]"
    by (simp add: base_cols_def is_digit_def cell_at_def a_formato_largo_def melt_def
        int64_castable_def to_numeric_def is_int64_def fila_larga_def to_Int64_def Let_def
        py_int_def digit_val_def to_datetime_def strptime_Ymd_def decimal.simps valid_date_def
        days_in_month_def leap_year_def ns_range_def timestamp_min_def timestamp_max_def)
qed

section \<open>Properties of the cleaning and ordering\<close>

lemma cell_rank_eq_iff: "(cell_rank a = cell_rank b) = (a = b)"
  by (cases a; cases b) (simp_all add: cell_rank_def)

lemma fecha_rank_eq_iff: "(fecha_rank f = fecha_rank g) = (f = g)"
  by (cases f; cases g) (simp_all add: fecha_rank_def)

lemma sort_order_eq_iff:
  "(sort_order r = (cell_rank e, cell_rank m, fecha_rank f))
     = (ESTACION r = e \<and> MAGNITUD r = m \<and> FECHA r = f)"
  by (simp add: sort_order_def cell_rank_eq_iff fecha_rank_eq_iff)

lemma cell_rank_Number_le: "(cell_rank (Number x) \<le> cell_rank (Number y)) = (x \<le> y)"
  by (auto simp: cell_rank_def)

lemma cell_rank_Number_Text: "cell_rank (Number x) < cell_rank (Text s)"
  by (simp add: cell_rank_def)

lemma cell_rank_Empty_last: "cell_rank c \<le> cell_rank Empty"
  by (cases c) (simp_all add: cell_rank_def)

lemma fecha_rank_Some_le: "(fecha_rank (Some d) \<le> fecha_rank (Some d')) = (d \<le> d')"
  by (auto simp: fecha_rank_def)

lemma set_limpiar_y_ordenar:
  "set (limpiar_y_ordenar long_df) = {r \<in> set long_df. FECHA r \<noteq> None}"
  by (simp add: limpiar_y_ordenar_def)

lemma sorted_limpiar_y_ordenar: "sorted (map sort_order (limpiar_y_ordenar long_df))"
  by (simp add: limpiar_y_ordenar_def sorted_sort_key)

lemma lex_pair_le:
  "((a :: 'a :: linorder, b :: 'b :: linorder) \<le> (c, d)) = (a < c \<or> (a = c \<and> b \<le> d))"
  by (auto simp: less_eq_prod_def)

lemma sort_order_le_iff:
  "(sort_order r \<le> sort_order r') =
     (cell_rank (ESTACION r) < cell_rank (ESTACION r')
      \<or> (ESTACION r = ESTACION r'
          \<and> (cell_rank (MAGNITUD r) < cell_rank (MAGNITUD r')
              \<or> (MAGNITUD r = MAGNITUD r' \<and> fecha_rank (FECHA r) \<le> fecha_rank (FECHA r')))))"
  by (simp only: sort_order_def lex_pair_le cell_rank_eq_iff)

text \<open>
  Claim C1. \<^verbatim>\<open>limpiar_y_ordenar\<close> returns the records that have a date, each as often as
  in the input, sorted by the key (ESTACION, MAGNITUD, FECHA): of two records of the
  output the earlier has the smaller ESTACION, or the same ESTACION and the smaller
  MAGNITUD, or both the same and a FECHA that is not later; numbers compare by value
  and dates chronologically. The sort is stable: the records with one given ESTACION,
  MAGNITUD and FECHA follow each other in the output as they do in the input. The
  output is a function of the input, so a second run gives the same order.
\<close>

theorem limpiar_y_ordenar_stable_sort:
  "sorted (map sort_order (limpiar_y_ordenar long_df))
   \<and> mset (limpiar_y_ordenar long_df) = mset (filter (\<lambda>r. FECHA r \<noteq> None) long_df)
   \<and> (\<forall>e m f. filter (\<lambda>r. ESTACION r = e \<and> MAGNITUD r = m \<and> FECHA r = f) (limpiar_y_ordenar long_df)
        = filter (\<lambda>r. ESTACION r = e \<and> MAGNITUD r = m \<and> FECHA r = f) (filter (\<lambda>r. FECHA r \<noteq> None) long_df))
   \<and> (\<forall>i j. i < j \<longrightarrow> j < length (limpiar_y_ordenar long_df) \<longrightarrow>
         cell_rank (ESTACION (limpiar_y_ordenar long_df ! i)) < cell_rank (ESTACION (limpiar_y_ordenar long_df ! j))
         \<or> (ESTACION (limpiar_y_ordenar long_df ! i) = ESTACION (limpiar_y_ordenar long_df ! j)
            \<and> (cell_rank (MAGNITUD (limpiar_y_ordenar long_df ! i)) < cell_rank (MAGNITUD (limpiar_y_ordenar long_df ! j))
               \<or> (MAGNITUD (limpiar_y_ordenar long_df ! i) = MAGNITUD (limpiar_y_ordenar long_df ! j)
                  \<and> fecha_rank (FECHA (limpiar_y_ordenar long_df ! i)) \<le> fecha_rank (FECHA (limpiar_y_ordenar long_df ! j))))))
   \<and> (\<forall>x y. (cell_rank (Number x) \<le> cell_rank (Number y)) = (x \<le> y))
   \<and> (\<forall>d d'. (fecha_rank (Some d) \<le> fecha_rank (Some d')) = (d \<le> d'))"
proof (intro conjI allI impI)
  let ?out = "limpiar_y_ordenar long_df"
  show "sorted (map sort_order ?out)" by (rule sorted_limpiar_y_ordenar)
  show "mset ?out = mset (filter (\<lambda>r. FECHA r \<noteq> None) long_df)"
    by (simp add: limpiar_y_ordenar_def)
  show "filter (\<lambda>r. ESTACION r = e \<and> MAGNITUD r = m \<and> FECHA r = f) ?out
        = filter (\<lambda>r. ESTACION r = e \<and> MAGNITUD r = m \<and> FECHA r = f) (filter (\<lambda>r. FECHA r \<noteq> None) long_df)"
    for e m f
    unfolding sort_order_eq_iff [symmetric] limpiar_y_ordenar_def Let_def
    by (rule sort_key_stable)
  show "cell_rank (ESTACION (?out ! i)) < cell_rank (ESTACION (?out ! j))
         \<or> (ESTACION (?out ! i) = ESTACION (?out ! j)
            \<and> (cell_rank (MAGNITUD (?out ! i)) < cell_rank (MAGNITUD (?out ! j))
               \<or> (MAGNITUD (?out ! i) = MAGNITUD (?out ! j)
                  \<and> fecha_rank (FECHA (?out ! i)) \<le> fecha_rank (FECHA (?out ! j)))))"
    if "i < j" "j < length ?out" for i j
  proof -
    have "map sort_order ?out ! i \<le> map sort_order ?out ! j"
      using sorted_limpiar_y_ordenar [of long_df] that
      by (intro sorted_nth_mono) simp_all
    then have "sort_order (?out ! i) \<le> sort_order (?out ! j)" using that by simp
    then show ?thesis by (simp only: sort_order_le_iff)
  qed
  show "(cell_rank (Number x) \<le> cell_rank (Number y)) = (x \<le> y)" for x y
    by (rule cell_rank_Number_le)
  show "(fecha_rank (Some d) \<le> fecha_rank (Some d')) = (d \<le> d')" for d d'
    by (rule fecha_rank_Some_le)
qed

text \<open>
  Claim C4. Every record that \<^verbatim>\<open>limpiar_y_ordenar\<close> returns is a record of the input with
  a date, the output is not longer than the input, and of two consecutive records the
  first has the smaller ESTACION, or the same ESTACION and the smaller MAGNITUD, or both
  the same and a date that is not later than the second's. Numbers compare by value,
  and a number comes before a text.
\<close>

theorem limpiar_y_ordenar_valid_records:
  "(\<forall>r \<in> set (limpiar_y_ordenar long_df). FECHA r \<noteq> None \<and> r \<in> set long_df)
   \<and> length (limpiar_y_ordenar long_df) \<le> length long_df
   \<and> (\<forall>i. Suc i < length (limpiar_y_ordenar long_df) \<longrightarrow>
         cell_rank (ESTACION (limpiar_y_ordenar long_df ! i))
           < cell_rank (ESTACION (limpiar_y_ordenar long_df ! Suc i))
         \<or> (ESTACION (limpiar_y_ordenar long_df ! i) = ESTACION (limpiar_y_ordenar long_df ! Suc i)
            \<and> (cell_rank (MAGNITUD (limpiar_y_ordenar long_df ! i))
                  < cell_rank (MAGNITUD (limpiar_y_ordenar long_df ! Suc i))
               \<or> (MAGNITUD (limpiar_y_ordenar long_df ! i) = MAGNITUD (limpiar_y_ordenar long_df ! Suc i)
                  \<and> (\<exists>d d'. FECHA (limpiar_y_ordenar long_df ! i) = Some d
                        \<and> FECHA (limpiar_y_ordenar long_df ! Suc i) = Some d' \<and> d \<le> d')))))
   \<and> (\<forall>x y. (cell_rank (Number x) < cell_rank (Number y)) = (x < y))
   \<and> (\<forall>x s. cell_rank (Number x) < cell_rank (Text s))"
proof (intro conjI allI impI ballI)
  let ?out = "limpiar_y_ordenar long_df"
  show "FECHA r \<noteq> None" if "r \<in> set ?out" for r
    using that by (simp add: set_limpiar_y_ordenar)
  show "r \<in> set long_df" if "r \<in> set ?out" for r
    using that by (simp add: set_limpiar_y_ordenar)
  show "length ?out \<le> length long_df" by (simp add: limpiar_y_ordenar_def)
  show "cell_rank (ESTACION (?out ! i)) < cell_rank (ESTACION (?out ! Suc i))
         \<or> (ESTACION (?out ! i) = ESTACION (?out ! Suc i)
            \<and> (cell_rank (MAGNITUD (?out ! i)) < cell_rank (MAGNITUD (?out ! Suc i))
               \<or> (MAGNITUD (?out ! i) = MAGNITUD (?out ! Suc i)
                  \<and> (\<exists>d d'. FECHA (?out ! i) = Some d \<and> FECHA (?out ! Suc i) = Some d' \<and> d \<le> d'))))"
    if h: "Suc i < length ?out" for i
  proof -
    have "map sort_order ?out ! i \<le> map sort_order ?out ! Suc i"
      using sorted_limpiar_y_ordenar [of long_df] h
      by (intro sorted_nth_mono) simp_all
    then have le: "sort_order (?out ! i) \<le> sort_order (?out ! Suc i)" using h by simp
    from h have "?out ! i \<in> set ?out" "?out ! Suc i \<in> set ?out" by simp_all
    then obtain d d' where d: "FECHA (?out ! i) = Some d" "FECHA (?out ! Suc i) = Some d'"
      by (auto simp: set_limpiar_y_ordenar)
    have "(fecha_rank (FECHA (?out ! i)) \<le> fecha_rank (FECHA (?out ! Suc i))) = (d \<le> d')"
      by (simp only: d fecha_rank_Some_le)
    with le d show ?thesis by (simp only: sort_order_le_iff) blast
  qed
  show "(cell_rank (Number x) < cell_rank (Number y)) = (x < y)" for x y
    by (auto simp: cell_rank_def)
  show "cell_rank (Number x) < cell_rank (Text s)" for x s
    by (rule cell_rank_Number_Text)
qed

theorem limpiar_y_ordenar_stable_sort_witness:
  "map (\<lambda>r. (ESTACION r, MAGNITUD r, FECHA r, VALOR r))
     (limpiar_y_ordenar
       [\<lparr>ESTACION = Number 5, MAGNITUD = Number 1, ANO = Some 2016, MES = Some 1,
         DIA_STR = ''D02'', VALOR = Some 1, DIA = 2, FECHA = Some (2016, 1, 2)\<rparr>,
        \<lparr>ESTACION = Number 4, MAGNITUD = Number 1, ANO = Some 2016, MES = Some 2,
         DIA_STR = ''D30'', VALOR = Some 2, DIA = 30, FECHA = None\<rparr>,
        \<lparr>ESTACION = Number 4, MAGNITUD = Number 1, ANO = Some 2016, MES = Some 1,
         DIA_STR = ''D01'', VALOR = Some 3, DIA = 1, FECHA = Some (2016, 1, 1)\<rparr>,
        \<lparr>ESTACION = Number 4, MAGNITUD = Number 1, ANO = Some 2016, MES = Some 1,
         DIA_STR = ''D01'', VALOR = Some 4, DIA = 1, FECHA = Some (2016, 1, 1)\<rparr>,
        \<lparr>ESTACION = Number 4, MAGNITUD = Number 1, ANO = Some 2015, MES = Some 12,
         DIA_STR = ''D31'', VALOR = None, DIA = 31, FECHA = Some (2015, 12, 31)\<rparr>])
   = [(Number 4, Number 1, Some (2015, 12, 31), None),
      (Number 4, Number 1, Some (2016, 1, 1), Some 3),
      (Number 4, Number 1, Some (2016, 1, 1), Some 4),
      (Number 5, Number 1, Some (2016, 1, 2), Some 1)]"
  using limpiar_y_ordenar_stable_sort [of
       "[\<lparr>ESTACION = Number 5, MAGNITUD = Number 1, ANO = Some 2016, MES = Some 1,
         DIA_STR = ''D02'', VALOR = Some 1, DIA = 2, FECHA = Some (2016, 1, 2)\<rparr>,
        \<lparr>ESTACION = Number 4, MAGNITUD = Number 1, ANO = Some 2016, MES = Some 2,
         DIA_STR = ''D30'', VALOR = Some 2, DIA = 30, FECHA = None\<rparr>,
        \<lparr>ESTACION = Number 4, MAGNITUD = Number 1, ANO = Some 2016, MES = Some 1,
         DIA_STR = ''D01'', VALOR = Some 3, DIA = 1, FECHA = Some (2016, 1, 1)\<rparr>,
        \<lparr>ESTACION = Number 4, MAGNITUD = Number 1, ANO = Some 2016, MES = Some 1,
         DIA_STR = ''D01'', VALOR = Some 4, DIA = 1, FECHA = Some (2016, 1, 1)\<rparr>,
        \<lparr>ESTACION = Number 4, MAGNITUD = Number 1, ANO = Some 2015, MES = Some 12,
         DIA_STR = ''D31'', VALOR = None, DIA = 31, FECHA = Some (2015, 12, 31)\<rparr>]"]
  by (simp add: limpiar_y_ordenar_def sort_order_def cell_rank_def fecha_rank_def)

theorem limpiar_y_ordenar_valid_records_witness:
  "map (\<lambda>r. (ESTACION r, MAGNITUD r, FECHA r))
     (limpiar_y_ordenar
       [\<lparr>ESTACION = Text ''MER'', MAGNITUD = Number 1, ANO = Some 2016, MES = Some 1,
         DIA_STR = ''D02'', VALOR = Some 1, DIA = 2, FECHA = Some (2016, 1, 2)\<rparr>,
        \<lparr>ESTACION = Number 4, MAGNITUD = Number 7, ANO = None, MES = Some 2,
         DIA_STR = ''D03'', VALOR = Some 2, DIA = 3, FECHA = None\<rparr>,
        \<lparr>ESTACION = Number 4, MAGNITUD = Number 7, ANO = Some 2016, MES = Some 1,
         DIA_STR = ''D01'', VALOR = None, DIA = 1, FECHA = Some (2016, 1, 1)\<rparr>,
        \<lparr>ESTACION = Number 4, MAGNITUD = Number 1, ANO = Some 2016, MES = Some 3,
         DIA_STR = ''D01'', VALOR = Some 4, DIA = 1, FECHA = Some (2016, 3, 1)\<rparr>])
   = [(Number 4, Number 1, Some (2016, 3, 1)),
      (Number 4, Number 7, Some (2016, 1, 1)),
      (Text ''MER'', Number 1, Some (2016, 1, 2))]"
  using limpiar_y_ordenar_valid_records [of
       "[\<lparr>ESTACION = Text ''MER'', MAGNITUD = Number 1, ANO = Some 2016, MES = Some 1,
         DIA_STR = ''D02'', VALOR = Some 1, DIA = 2, FECHA = Some (2016, 1, 2)\<rparr>,
        \<lparr>ESTACION = Number 4, MAGNITUD = Number 7, ANO = None, MES = Some 2,
         DIA_STR = ''D03'', VALOR = Some 2, DIA = 3, FECHA = None\<rparr>,
        \<lparr>ESTACION = Number 4, MAGNITUD = Number 7, ANO = Some 2016, MES = Some 1,
         DIA_STR = ''D01'', VALOR = None, DIA = 1, FECHA = Some (2016, 1, 1)\<rparr>,
        \<lparr>ESTACION = Number 4, MAGNITUD = Number 1, ANO = Some 2016, MES = Some 3,
         DIA_STR = ''D01'', VALOR = Some 4, DIA = 1, FECHA = Some (2016, 3, 1)\<rparr>]"]
  by (simp add: limpiar_y_ordenar_def sort_order_def cell_rank_def fecha_rank_def)

lemma is_day_col_D: "is_day_col [CHR ''D'', a, b] = (is_digit a \<and> is_digit b)"
  by simp

lemma filtrar_columnas_keeps_day_cols:
  assumes "filtrar_columnas raw = Inr df" and "c \<in> set (columns raw)" and "is_day_col c"
  shows "c \<in> set (columns df)"
proof -
  have "columns df = base_cols @ sort_key day_number (filter is_day_col (columns raw))"
    using filtrar_columnas_Inr(2) [OF assms(1)] by (simp add: select_columns_def)
  then show ?thesis using assms(2,3) by simp
qed

text \<open>
  Claim C10 says that the day pattern accepts labels out of range, D00 and D32 to D99,
  and that all the same every record that survives \<^verbatim>\<open>limpiar_y_ordenar\<close> has a DIA from
  1 to 31, since a day out of range can form no date. The first half holds: the labels
  are accepted and \<^verbatim>\<open>filtrar_columnas\<close> keeps their columns. The code fails the second
  half: on the table below, with the year 202, the month 10 and the column D35, the
  number 2021035 is formed and read as the date 2021-03-05, and the record, whose DIA is
  35, survives. (No text parses here, and the dates are those of a nanosecond
  timestamp.)
\<close>

theorem day_out_of_range_survives:
  "is_day_col ''D00'' \<and> is_day_col ''D35'' \<and> is_day_col ''D99''
   \<and> filtrar_columnas
       \<lparr>columns = [''ESTACION'', ''MAGNITUD'', ''ANO'', ''MES'', ''D35'', ''D00''],
        rows = [[Number 4, Number 1, Number 202, Number 10, Number 7, Number 8]]\<rparr>
     = Inr \<lparr>columns = [''ESTACION'', ''MAGNITUD'', ''ANO'', ''MES'', ''D00'', ''D35''],
            rows = [[Number 4, Number 1, Number 202, Number 10, Number 8, Number 7]]\<rparr>
   \<and> map_sum id (map (\<lambda>r. (DIA_STR r, DIA r, FECHA r)))
       (a_formato_largo Map.empty ns_range
         \<lparr>columns = [''ESTACION'', ''MAGNITUD'', ''ANO'', ''MES'', ''D00'', ''D35''],
          rows = [[Number 4, Number 1, Number 202, Number 10, Number 8, Number 7]]\<rparr>)
     = Inr [(''D00'', 0, None), (''D35'', 35, Some (2021, 3, 5))]
   \<and> map_sum id (\<lambda>long. map (\<lambda>r. (DIA_STR r, DIA r, FECHA r)) (limpiar_y_ordenar long))
       (a_formato_largo Map.empty ns_range
         \<lparr>columns = [''ESTACION'', ''MAGNITUD'', ''ANO'', ''MES'', ''D00'', ''D35''],
          rows = [[Number 4, Number 1, Number 202, Number 10, Number 8, Number 7]]\<rparr>)
     = Inr [(''D35'', 35, Some (2021, 3, 5))]"
proof -
  let ?raw = "\<lparr>columns = [''ESTACION'', ''MAGNITUD'', ''ANO'', ''MES'', ''D35'', ''D00''],
        rows = [[Number 4, Number 1, Number 202, Number 10, Number 7, Number 8]]\<rparr>"
  let ?df = "\<lparr>columns = [''ESTACION'', ''MAGNITUD'', ''ANO'', ''MES'', ''D00'', ''D35''],
            rows = [[Number 4, Number 1, Number 202, Number 10, Number 8, Number 7]]\<rparr>"
  let ?long = "[\<lparr>ESTACION = Number 4, MAGNITUD = Number 1, ANO = Some 202, MES = Some 10,
          DIA_STR = ''D00'', VALOR = Some 8, DIA = 0, FECHA = None\<rparr>,
        \<lparr>ESTACION = Number 4, MAGNITUD = Number 1, ANO = Some 202, MES = Some 10,
          DIA_STR = ''D35'', VALOR = Some 7, DIA = 35, FECHA = Some (2021, 3, 5)\<rparr>]"
  have labels: "is_day_col ''D00''" "is_day_col ''D35''" "is_day_col ''D99''"
    by (simp_all add: is_digit_def)
  have h1: "filtrar_columnas ?raw = Inr ?df"
    by (simp add: filtrar_columnas_def base_cols_def is_digit_def day_number_def py_int_def
        digit_val_def select_columns_def cell_at_def)
  have h2: "a_formato_largo Map.empty ns_range ?df = Inr ?long"
    by (simp add: base_cols_def is_digit_def cell_at_def a_formato_largo_def melt_def
        int64_castable_def to_numeric_def is_int64_def fila_larga_def to_Int64_def Let_def
        py_int_def digit_val_def to_datetime_def strptime_Ymd_def decimal.simps valid_date_def
        days_in_month_def leap_year_def ns_range_def timestamp_min_def timestamp_max_def)
  have h3: "map (\<lambda>r. (DIA_STR r, DIA r, FECHA r)) (limpiar_y_ordenar ?long)
              = [(''D35'', 35, Some (2021, 3, 5))]"
    by (simp add: limpiar_y_ordenar_def)
  from labels h1 show ?thesis
    by (simp only: h2 h3 map_sum.simps id_apply list.map long_record.simps simp_thms)
qed

section \<open>Properties of the ingestion\<close>

lemma read_files_all:
  assumes "\<forall>fn \<in> set files. read_emisiones_csv fn = Some (tables fn)"
  shows "read_files read_emisiones_csv files
         = Inr (map (\<lambda>fn. set_column ''__ARCHIVO__'' (Text fn) (tables fn)) files)"
  using assms by (induction files) simp_all

lemma read_files_error:
  "read_files read_emisiones_csv files = Inl e \<Longrightarrow>
     \<exists>pre fn post. files = pre @ fn # post \<and> e = ReadError fn \<and> read_emisiones_csv fn = None
        \<and> (\<forall>g \<in> set pre. read_emisiones_csv g \<noteq> None)"
proof (induction files)
  case Nil
  then show ?case by simp
next
  case (Cons a files)
  show ?case
  proof (cases "read_emisiones_csv a")
    case None
    with Cons.prems have "e = ReadError a" by simp
    with None show ?thesis by (intro exI [of _ "[]"] exI [of _ a] exI [of _ files]) simp
  next
    case (Some df)
    with Cons.prems have "read_files read_emisiones_csv files = Inl e"
      by (simp split: sum.splits)
    from Cons.IH [OF this] obtain pre fn post where
      p: "files = pre @ fn # post" "e = ReadError fn" "read_emisiones_csv fn = None"
         "\<forall>g \<in> set pre. read_emisiones_csv g \<noteq> None" by blast
    show ?thesis
      using p Some by (intro exI [of _ "a # pre"] exI [of _ fn] exI [of _ post]) simp
  qed
qed

lemma read_files_not_RuntimeError:
  "read_files read_emisiones_csv files \<noteq> Inl RuntimeError"
  using read_files_error [of read_emisiones_csv files RuntimeError] by auto

lemma cargar_todo_RuntimeError_iff:
  "(cargar_todo read_emisiones_csv listing = Inl RuntimeError)
     = (filter matches_pattern listing = [])"
proof (cases "filter matches_pattern listing = []")
  case True
  then show ?thesis by (simp add: cargar_todo_def)
next
  case False
  then have "sort (filter matches_pattern listing) \<noteq> []"
    by (metis length_sort length_0_conv)
  with False show ?thesis
    using read_files_not_RuntimeError [of read_emisiones_csv "sort (filter matches_pattern listing)"]
    by (auto simp: cargar_todo_def Let_def split: sum.splits)
qed

lemma cell_at_set_column:
  assumes "r \<in> set (rows (set_column name v df))"
  shows "cell_at (columns (set_column name v df)) r name = v"
proof (cases "name \<in> set (columns df)")
  case True
  with assms obtain r0 where
    "r = map (\<lambda>c. if c = name then v else cell_at (columns df) r0 c) (columns df)"
    by (auto simp: set_column_def)
  with True show ?thesis by (simp add: set_column_def cell_at_map)
next
  case False
  with assms obtain r0 where r: "r = map (cell_at (columns df) r0) (columns df) @ [v]"
    by (auto simp: set_column_def)
  have "map_of (zip (columns df @ [name]) r) name = Some v"
    using False by (simp add: r map_of_zip_map map_add_def)
  with False show ?thesis by (simp add: set_column_def cell_at_def)
qed

lemma name_in_set_column: "name \<in> set (columns (set_column name v df))"
  by (simp add: set_column_def)

lemma length_rows_set_column: "length (rows (set_column name v df)) = length (rows df)"
  by (simp add: set_column_def)

lemma set_first_seen: "set (first_seen xs) = set xs"
  by (simp add: first_seen_def)

lemma concat_frames_column:
  assumes "\<forall>df \<in> set dfs. name \<in> set (columns df)"
  shows "map (\<lambda>r. cell_at (columns (concat_frames dfs)) r name) (rows (concat_frames dfs))
         = concat (map (\<lambda>df. map (\<lambda>r. cell_at (columns df) r name) (rows df)) dfs)"
proof (cases "dfs = []")
  case True
  then show ?thesis by (simp add: concat_frames_def)
next
  case False
  let ?cols = "first_seen (concat (map columns dfs))"
  from False assms have in_cols: "name \<in> set ?cols"
    by (cases dfs) (auto simp: set_first_seen)
  have "map (\<lambda>r. cell_at ?cols r name)
          (concat (map (\<lambda>df. map (\<lambda>r. map (cell_at (columns df) r) ?cols) (rows df)) dfs))
        = concat (map (\<lambda>df. map (\<lambda>r. cell_at (columns df) r name) (rows df)) dfs)"
    by (simp add: map_concat comp_def cell_at_map [OF in_cols])
  then show ?thesis by (simp add: concat_frames_def Let_def)
qed

lemma provenance_of_tagged:
  "map (\<lambda>r. cell_at (columns (set_column ''__ARCHIVO__'' (Text fn) df)) r ''__ARCHIVO__'')
     (rows (set_column ''__ARCHIVO__'' (Text fn) df))
   = replicate (length (rows df)) (Text fn)"
proof -
  have "map (\<lambda>r. cell_at (columns (set_column ''__ARCHIVO__'' (Text fn) df)) r ''__ARCHIVO__'')
          (rows (set_column ''__ARCHIVO__'' (Text fn) df))
        = map (\<lambda>r. Text fn) (rows (set_column ''__ARCHIVO__'' (Text fn) df))"
    by (rule map_cong [OF refl]) (rule cell_at_set_column)
  then show ?thesis
    by (simp only: map_replicate_const length_rows_set_column)
qed

text \<open>
  Claim C8. \<^verbatim>\<open>cargar_todo\<close> fails with the RuntimeError of a directory without input if
  and only if no name of the directory matches the pattern; the failure does not depend
  on what reading a file would give, since no file is read, and no table is returned.
  When names match, the files are read in the sorted order of their names: a failing
  read is that of the first file in this order that cannot be read, and when every
  matching file can be read the rows of the result are the rows of the files in this
  order, each tagged with the name of its file.
\<close>

theorem cargar_todo_no_input:
  "((cargar_todo read_emisiones_csv listing = Inl RuntimeError)
      = (filter matches_pattern listing = []))
   \<and> (filter matches_pattern listing = []
        \<longrightarrow> (\<forall>other. cargar_todo other listing = Inl RuntimeError)
            \<and> (\<forall>raw. cargar_todo read_emisiones_csv listing \<noteq> Inr raw))
   \<and> (\<forall>fn. cargar_todo read_emisiones_csv listing = Inl (ReadError fn) \<longrightarrow>
         (\<exists>pre post. sort (filter matches_pattern listing) = pre @ fn # post
            \<and> read_emisiones_csv fn = None \<and> (\<forall>g \<in> set pre. read_emisiones_csv g \<noteq> None)))
   \<and> (filter matches_pattern listing \<noteq> []
        \<longrightarrow> (\<forall>fn \<in> set listing. matches_pattern fn \<longrightarrow> read_emisiones_csv fn = Some (tables fn))
        \<longrightarrow> (\<exists>raw. cargar_todo read_emisiones_csv listing = Inr raw
               \<and> length (rows raw)
                   = sum_list (map (\<lambda>fn. length (rows (tables fn))) (sort (filter matches_pattern listing)))
               \<and> map (\<lambda>r. cell_at (columns raw) r ''__ARCHIVO__'') (rows raw)
                   = concat (map (\<lambda>fn. replicate (length (rows (tables fn))) (Text fn))
                              (sort (filter matches_pattern listing)))))"
proof (intro conjI allI impI)
  let ?files = "sort (filter matches_pattern listing)"
  show "(cargar_todo read_emisiones_csv listing = Inl RuntimeError)
      = (filter matches_pattern listing = [])"
    by (rule cargar_todo_RuntimeError_iff)
  show "cargar_todo other listing = Inl RuntimeError"
    if "filter matches_pattern listing = []" for other
    using that by (simp add: cargar_todo_RuntimeError_iff)
  show "cargar_todo read_emisiones_csv listing \<noteq> Inr raw"
    if "filter matches_pattern listing = []" for raw
    using that by (simp add: cargar_todo_def)
  show "\<exists>pre post. ?files = pre @ fn # post
            \<and> read_emisiones_csv fn = None \<and> (\<forall>g \<in> set pre. read_emisiones_csv g \<noteq> None)"
    if h: "cargar_todo read_emisiones_csv listing = Inl (ReadError fn)" for fn
  proof -
    from h have "read_files read_emisiones_csv ?files = Inl (ReadError fn)"
      by (auto simp: cargar_todo_def Let_def split: if_splits sum.splits)
    from read_files_error [OF this] show ?thesis by auto
  qed
  show "\<exists>raw. cargar_todo read_emisiones_csv listing = Inr raw
               \<and> length (rows raw) = sum_list (map (\<lambda>fn. length (rows (tables fn))) ?files)
               \<and> map (\<lambda>r. cell_at (columns raw) r ''__ARCHIVO__'') (rows raw)
                   = concat (map (\<lambda>fn. replicate (length (rows (tables fn))) (Text fn)) ?files)"
    if ne: "filter matches_pattern listing \<noteq> []"
      and ok: "\<forall>fn \<in> set listing. matches_pattern fn \<longrightarrow> read_emisiones_csv fn = Some (tables fn)"
  proof -
    let ?dfs = "map (\<lambda>fn. set_column ''__ARCHIVO__'' (Text fn) (tables fn)) ?files"
    from ok have "\<forall>fn \<in> set ?files. read_emisiones_csv fn = Some (tables fn)" by simp
    then have rf: "read_files read_emisiones_csv ?files = Inr ?dfs" by (rule read_files_all)
    from ne have "?files \<noteq> []" by (metis length_sort length_0_conv)
    with rf have ct: "cargar_todo read_emisiones_csv listing = Inr (concat_frames ?dfs)"
      by (simp add: cargar_todo_def Let_def)
    have tagged: "\<forall>df \<in> set ?dfs. ''__ARCHIVO__'' \<in> set (columns df)"
      by (auto simp: name_in_set_column)
    have prov: "map (\<lambda>r. cell_at (columns (concat_frames ?dfs)) r ''__ARCHIVO__'') (rows (concat_frames ?dfs))
          = concat (map (\<lambda>fn. replicate (length (rows (tables fn))) (Text fn)) ?files)"
      unfolding concat_frames_column [OF tagged]
      by (simp only: map_map comp_def provenance_of_tagged)
    have "length (rows (concat_frames ?dfs))
          = length (map (\<lambda>r. cell_at (columns (concat_frames ?dfs)) r ''__ARCHIVO__'') (rows (concat_frames ?dfs)))"
      by simp
    also have "\<dots> = sum_list (map (\<lambda>fn. length (rows (tables fn))) ?files)"
      unfolding prov by (simp only: length_map length_concat map_map comp_def length_replicate)
    finally have len: "length (rows (concat_frames ?dfs))
          = sum_list (map (\<lambda>fn. length (rows (tables fn))) ?files)" .
    from ct len prov show ?thesis by blast
  qed
qed

theorem cargar_todo_no_input_witness:
  "filter matches_pattern [''emisiones-2017.csv'', ''notas.txt'', ''emisiones-2016.csv'']
     = [''emisiones-2017.csv'', ''emisiones-2016.csv'']
   \<and> cargar_todo
       [''emisiones-2016.csv'' \<mapsto> \<lparr>columns = [''ESTACION'', ''D01''], rows = [[Number 4, Number 7]]\<rparr>,
        ''emisiones-2017.csv'' \<mapsto> \<lparr>columns = [''ESTACION'', ''D02''],
                                    rows = [[Number 5, Number 8], [Number 6, Empty]]\<rparr>]
       [''emisiones-2017.csv'', ''notas.txt'', ''emisiones-2016.csv'']
     = Inr \<lparr>columns = [''ESTACION'', ''D01'', ''__ARCHIVO__'', ''D02''],
            rows = [[Number 4, Number 7, Text ''emisiones-2016.csv'', Empty],
                    [Number 5, Empty, Text ''emisiones-2017.csv'', Number 8],
                    [Number 6, Empty, Text ''emisiones-2017.csv'', Empty]]\<rparr>
   \<and> filter matches_pattern [''notas.txt'', ''emisiones-2016.txt'', ''emisiones.csv''] = []
   \<and> cargar_todo
       [''emisiones-2016.txt'' \<mapsto> \<lparr>columns = [''ESTACION'', ''D01''], rows = [[Number 4, Number 7]]\<rparr>]
       [''notas.txt'', ''emisiones-2016.txt'', ''emisiones.csv'']
     = Inl RuntimeError"
proof -
  let ?rd = "[''emisiones-2016.csv'' \<mapsto> \<lparr>columns = [''ESTACION'', ''D01''], rows = [[Number 4, Number 7]]\<rparr>,
        ''emisiones-2017.csv'' \<mapsto> \<lparr>columns = [''ESTACION'', ''D02''],
                                    rows = [[Number 5, Number 8], [Number 6, Empty]]\<rparr>]"
  let ?ls = "[''emisiones-2017.csv'', ''notas.txt'', ''emisiones-2016.csv'']"
  let ?rd2 = "[''emisiones-2016.txt'' \<mapsto> \<lparr>columns = [''ESTACION'', ''D01''], rows = [[Number 4, Number 7]]\<rparr>]"
  let ?ls2 = "[''notas.txt'', ''emisiones-2016.txt'', ''emisiones.csv'']"
  have m1: "filter matches_pattern ?ls = [''emisiones-2017.csv'', ''emisiones-2016.csv'']"
    by (simp add: matches_pattern_def suffix_to_prefix)
  have s1: "sort [''emisiones-2017.csv'', ''emisiones-2016.csv'']
            = [''emisiones-2016.csv'', ''emisiones-2017.csv'']"
    by simp
  have c1: "cargar_todo ?rd ?ls
     = Inr \<lparr>columns = [''ESTACION'', ''D01'', ''__ARCHIVO__'', ''D02''],
            rows = [[Number 4, Number 7, Text ''emisiones-2016.csv'', Empty],
                    [Number 5, Empty, Text ''emisiones-2017.csv'', Number 8],
                    [Number 6, Empty, Text ''emisiones-2017.csv'', Empty]]\<rparr>"
    unfolding cargar_todo_def m1 s1
    by (simp add: set_column_def concat_frames_def first_seen_def cell_at_def)
  have m2: "filter matches_pattern ?ls2 = []"
    by (simp add: matches_pattern_def suffix_to_prefix)
  from cargar_todo_no_input [of ?rd2 ?ls2] m2
  have c2: "cargar_todo ?rd2 ?ls2 = Inl RuntimeError" by blast
  from m1 c1 m2 c2 show ?thesis by (intro conjI)
qed


section \<open>Properties of the summary\<close>

lemma set_map_filter_iff:
  "set (List.map_filter f xs) = {y. \<exists>x \<in> set xs. f x = Some y}"
  by (induction xs) (auto split: option.splits)

lemma set_groupby_keys:
  "set (groupby_keys key rank df) = {k. \<exists>r \<in> set df. key r = Some k}"
  by (simp add: groupby_keys_def set_map_filter_iff)

lemma distinct_groupby_keys: "distinct (groupby_keys key rank df)"
  by (simp add: groupby_keys_def)

lemma key_estacion_magnitud_Some:
  "(key_estacion_magnitud r = Some k)
     = (ESTACION r = fst k \<and> MAGNITUD r = snd k \<and> fst k \<noteq> Empty \<and> snd k \<noteq> Empty)"
  by (cases k) (auto simp: key_estacion_magnitud_def)

lemma group_values_estacion_magnitud:
  assumes "fst k \<noteq> Empty" and "snd k \<noteq> Empty"
  shows "group_values key_estacion_magnitud df k
         = List.map_filter VALOR (filter (\<lambda>r. ESTACION r = fst k \<and> MAGNITUD r = snd k) df)"
  using assms by (simp add: group_values_def key_estacion_magnitud_Some)

lemma agg_min_Min: "xs \<noteq> [] \<Longrightarrow> agg_min xs = Some (Min (set xs))"
  by (cases xs) (simp_all add: agg_min_def Min.set_eq_fold [symmetric])

lemma agg_max_Max: "xs \<noteq> [] \<Longrightarrow> agg_max xs = Some (Max (set xs))"
  by (cases xs) (simp_all add: agg_max_def Max.set_eq_fold [symmetric])

lemma agg_empty:
  "agg_count [] = 0" "agg_mean [] = None" "agg_std [] = None" "agg_min [] = None" "agg_max [] = None"
  by (simp_all add: agg_count_def agg_mean_def agg_std_def agg_min_def agg_max_def)

lemma values_10_20_30:
  assumes "mset vs = {#10, 20, 30 :: real#}"
  shows "length vs = 3" and "sum_list vs = 60" and "set vs = {10, 20, 30}"
proof -
  have "size (mset vs) = 3" by (simp add: assms)
  then show "length vs = 3" by simp
  have "sum_mset (mset vs) = 60" by (simp add: assms)
  then show "sum_list vs = 60" by (simp add: sum_mset_sum_list)
  have "set_mset (mset vs) = {10, 20, 30}" by (simp add: assms)
  then show "set vs = {10, 20, 30}" by simp
qed

lemma summary_of_values:
  fixes vs :: "real list"
  shows "agg_count vs = length vs
        \<and> (vs = [] \<longrightarrow> agg_count vs = 0 \<and> agg_mean vs = None \<and> agg_std vs = None
              \<and> agg_min vs = None \<and> agg_max vs = None)
        \<and> (vs \<noteq> [] \<longrightarrow> agg_mean vs = Some (sum_list vs / real (length vs))
              \<and> agg_min vs = Some (Min (set vs)) \<and> agg_max vs = Some (Max (set vs)))
        \<and> (length vs = 1 \<longrightarrow> agg_std vs = None)
        \<and> (2 \<le> length vs \<longrightarrow> agg_std vs =
              Some (sqrt (sum_list (map (\<lambda>x. (x - sum_list vs / real (length vs))\<^sup>2) vs)
                          / real (length vs - 1))))
        \<and> (mset vs = {#10, 20, 30#} \<longrightarrow> agg_count vs = 3 \<and> agg_mean vs = Some 20
              \<and> agg_min vs = Some 10 \<and> agg_max vs = Some 30)"
proof (intro conjI impI)
  show "agg_count vs = length vs" by (simp add: agg_count_def)
  show "agg_count vs = 0" "agg_mean vs = None" "agg_std vs = None" "agg_min vs = None"
    "agg_max vs = None" if "vs = []"
    using that by (simp_all add: agg_empty)
  show "agg_mean vs = Some (sum_list vs / real (length vs))" if "vs \<noteq> []"
    using that by (simp add: agg_mean_def)
  show "agg_min vs = Some (Min (set vs))" if "vs \<noteq> []" using that by (rule agg_min_Min)
  show "agg_max vs = Some (Max (set vs))" if "vs \<noteq> []" using that by (rule agg_max_Max)
  show "agg_std vs = None" if "length vs = 1" using that by (simp add: agg_std_def)
  show "agg_std vs = Some (sqrt (sum_list (map (\<lambda>x. (x - sum_list vs / real (length vs))\<^sup>2) vs)
                          / real (length vs - 1)))" if "2 \<le> length vs"
    using that by (simp add: agg_std_def Let_def)
  assume m: "mset vs = {#10, 20, 30#}"
  note v = values_10_20_30 [OF m]
  from v(1) have ne: "vs \<noteq> []" by auto
  show "agg_count vs = 3" by (simp add: agg_count_def v(1))
  show "agg_mean vs = Some 20" using ne by (simp add: agg_mean_def v(1,2))
  show "agg_min vs = Some 10" by (simp add: agg_min_Min [OF ne] v(3))
  show "agg_max vs = Some 30" by (simp add: agg_max_Max [OF ne] v(3))
qed

lemma resumen_keys:
  "map (\<lambda>s. (grp_ESTACION s, grp_MAGNITUD s)) (resumen_estadistico df)
     = groupby_keys key_estacion_magnitud rank2 df"
  by (simp add: resumen_estadistico_def Let_def comp_def)

lemma resumen_row:
  assumes "s \<in> set (resumen_estadistico df)"
  shows "\<exists>vs. vs = List.map_filter VALOR
                (filter (\<lambda>r. ESTACION r = grp_ESTACION s \<and> MAGNITUD r = grp_MAGNITUD s) df)
         \<and> col_count s = agg_count vs \<and> promedio s = agg_mean vs \<and> desv_std s = agg_std vs
         \<and> col_min s = agg_min vs \<and> col_max s = agg_max vs"
proof -
  from assms obtain k where k: "k \<in> set (groupby_keys key_estacion_magnitud rank2 df)"
    and s: "s = \<lparr>grp_ESTACION = fst k, grp_MAGNITUD = snd k,
                col_count = agg_count (group_values key_estacion_magnitud df k),
                promedio = agg_mean (group_values key_estacion_magnitud df k),
                desv_std = agg_std (group_values key_estacion_magnitud df k),
                col_min = agg_min (group_values key_estacion_magnitud df k),
                col_max = agg_max (group_values key_estacion_magnitud df k)\<rparr>"
    by (auto simp: resumen_estadistico_def Let_def)
  from k have "fst k \<noteq> Empty" "snd k \<noteq> Empty"
    by (auto simp: set_groupby_keys key_estacion_magnitud_Some)
  then show ?thesis by (simp add: s group_values_estacion_magnitud)
qed

text \<open>
  Claim C5. \<^verbatim>\<open>resumen_estadistico\<close> has one row for each pair (ESTACION, MAGNITUD) that a
  record of the table carries with both parts present. The statistics of a row are
  those of the VALOR entries of the pair's records that are not missing: their number,
  their mean, their sample deviation, the least and the greatest. When all the values
  of the pair are missing, the count is 0 and the other four statistics are missing, no
  number standing in for them. For the values 10, 20 and 30 the count is 3, the mean 20,
  the minimum 10 and the maximum 30.
\<close>

theorem resumen_estadistico_groups:
  "distinct (map (\<lambda>s. (grp_ESTACION s, grp_MAGNITUD s)) (resumen_estadistico df))
   \<and> set (map (\<lambda>s. (grp_ESTACION s, grp_MAGNITUD s)) (resumen_estadistico df))
       = {k. \<exists>r \<in> set df. ESTACION r = fst k \<and> MAGNITUD r = snd k \<and> fst k \<noteq> Empty \<and> snd k \<noteq> Empty}
   \<and> (\<forall>s \<in> set (resumen_estadistico df). \<forall>vs.
        vs = List.map_filter VALOR
               (filter (\<lambda>r. ESTACION r = grp_ESTACION s \<and> MAGNITUD r = grp_MAGNITUD s) df) \<longrightarrow>
          col_count s = length vs
        \<and> (vs = [] \<longrightarrow> col_count s = 0 \<and> promedio s = None \<and> desv_std s = None
              \<and> col_min s = None \<and> col_max s = None)
        \<and> (vs \<noteq> [] \<longrightarrow> promedio s = Some (sum_list vs / real (length vs))
              \<and> col_min s = Some (Min (set vs)) \<and> col_max s = Some (Max (set vs)))
        \<and> (length vs = 1 \<longrightarrow> desv_std s = None)
        \<and> (2 \<le> length vs \<longrightarrow> desv_std s =
              Some (sqrt (sum_list (map (\<lambda>x. (x - sum_list vs / real (length vs))\<^sup>2) vs)
                          / real (length vs - 1))))
        \<and> (mset vs = {#10, 20, 30#} \<longrightarrow> col_count s = 3 \<and> promedio s = Some 20
              \<and> col_min s = Some 10 \<and> col_max s = Some 30))"
proof (intro conjI ballI allI)
  show "distinct (map (\<lambda>s. (grp_ESTACION s, grp_MAGNITUD s)) (resumen_estadistico df))"
    by (simp only: resumen_keys distinct_groupby_keys)
  show "set (map (\<lambda>s. (grp_ESTACION s, grp_MAGNITUD s)) (resumen_estadistico df))
       = {k. \<exists>r \<in> set df. ESTACION r = fst k \<and> MAGNITUD r = snd k \<and> fst k \<noteq> Empty \<and> snd k \<noteq> Empty}"
    by (simp only: resumen_keys set_groupby_keys key_estacion_magnitud_Some)
  fix s vs assume s: "s \<in> set (resumen_estadistico df)"
  show "vs = List.map_filter VALOR
               (filter (\<lambda>r. ESTACION r = grp_ESTACION s \<and> MAGNITUD r = grp_MAGNITUD s) df) \<longrightarrow>
          col_count s = length vs
        \<and> (vs = [] \<longrightarrow> col_count s = 0 \<and> promedio s = None \<and> desv_std s = None
              \<and> col_min s = None \<and> col_max s = None)
        \<and> (vs \<noteq> [] \<longrightarrow> promedio s = Some (sum_list vs / real (length vs))
              \<and> col_min s = Some (Min (set vs)) \<and> col_max s = Some (Max (set vs)))
        \<and> (length vs = 1 \<longrightarrow> desv_std s = None)
        \<and> (2 \<le> length vs \<longrightarrow> desv_std s =
              Some (sqrt (sum_list (map (\<lambda>x. (x - sum_list vs / real (length vs))\<^sup>2) vs)
                          / real (length vs - 1))))
        \<and> (mset vs = {#10, 20, 30#} \<longrightarrow> col_count s = 3 \<and> promedio s = Some 20
              \<and> col_min s = Some 10 \<and> col_max s = Some 30)"
  proof
    assume vs: "vs = List.map_filter VALOR
               (filter (\<lambda>r. ESTACION r = grp_ESTACION s \<and> MAGNITUD r = grp_MAGNITUD s) df)"
    from resumen_row [OF s] vs have
      e: "col_count s = agg_count vs" "promedio s = agg_mean vs" "desv_std s = agg_std vs"
         "col_min s = agg_min vs" "col_max s = agg_max vs" by simp_all
    show "col_count s = length vs
        \<and> (vs = [] \<longrightarrow> col_count s = 0 \<and> promedio s = None \<and> desv_std s = None
              \<and> col_min s = None \<and> col_max s = None)
        \<and> (vs \<noteq> [] \<longrightarrow> promedio s = Some (sum_list vs / real (length vs))
              \<and> col_min s = Some (Min (set vs)) \<and> col_max s = Some (Max (set vs)))
        \<and> (length vs = 1 \<longrightarrow> desv_std s = None)
        \<and> (2 \<le> length vs \<longrightarrow> desv_std s =
              Some (sqrt (sum_list (map (\<lambda>x. (x - sum_list vs / real (length vs))\<^sup>2) vs)
                          / real (length vs - 1))))
        \<and> (mset vs = {#10, 20, 30#} \<longrightarrow> col_count s = 3 \<and> promedio s = Some 20
              \<and> col_min s = Some 10 \<and> col_max s = Some 30)"
      unfolding e by (rule summary_of_values)
  qed
qed

theorem resumen_estadistico_groups_witness:
  "resumen_estadistico
     [\<lparr>ESTACION = Number 5, MAGNITUD = Number 1, ANO = Some 2016, MES = Some 1,
       DIA_STR = ''D01'', VALOR = None, DIA = 1, FECHA = Some (2016, 1, 1)\<rparr>,
      \<lparr>ESTACION = Number 4, MAGNITUD = Number 1, ANO = Some 2016, MES = Some 1,
       DIA_STR = ''D01'', VALOR = Some 10, DIA = 1, FECHA = Some (2016, 1, 1)\<rparr>,
      \<lparr>ESTACION = Number 4, MAGNITUD = Number 1, ANO = Some 2016, MES = Some 1,
       DIA_STR = ''D02'', VALOR = None, DIA = 2, FECHA = Some (2016, 1, 2)\<rparr>,
      \<lparr>ESTACION = Number 4, MAGNITUD = Number 1, ANO = Some 2016, MES = Some 1,
       DIA_STR = ''D03'', VALOR = Some 30, DIA = 3, FECHA = Some (2016, 1, 3)\<rparr>,
      \<lparr>ESTACION = Empty, MAGNITUD = Number 1, ANO = Some 2016, MES = Some 1,
       DIA_STR = ''D03'', VALOR = Some 99, DIA = 3, FECHA = Some (2016, 1, 3)\<rparr>,
      \<lparr>ESTACION = Number 4, MAGNITUD = Number 1, ANO = Some 2016, MES = Some 1,
       DIA_STR = ''D04'', VALOR = Some 20, DIA = 4, FECHA = Some (2016, 1, 4)\<rparr>]
   = [\<lparr>grp_ESTACION = Number 4, grp_MAGNITUD = Number 1, col_count = 3, promedio = Some 20,
       desv_std = Some 10, col_min = Some 10, col_max = Some 30\<rparr>,
      \<lparr>grp_ESTACION = Number 5, grp_MAGNITUD = Number 1, col_count = 0, promedio = None,
       desv_std = None, col_min = None, col_max = None\<rparr>]"
  using resumen_estadistico_groups [of
    "[\<lparr>ESTACION = Number 5, MAGNITUD = Number 1, ANO = Some 2016, MES = Some 1,
       DIA_STR = ''D01'', VALOR = None, DIA = 1, FECHA = Some (2016, 1, 1)\<rparr>,
      \<lparr>ESTACION = Number 4, MAGNITUD = Number 1, ANO = Some 2016, MES = Some 1,
       DIA_STR = ''D01'', VALOR = Some 10, DIA = 1, FECHA = Some (2016, 1, 1)\<rparr>,
      \<lparr>ESTACION = Number 4, MAGNITUD = Number 1, ANO = Some 2016, MES = Some 1,
       DIA_STR = ''D02'', VALOR = None, DIA = 2, FECHA = Some (2016, 1, 2)\<rparr>,
      \<lparr>ESTACION = Number 4, MAGNITUD = Number 1, ANO = Some 2016, MES = Some 1,
       DIA_STR = ''D03'', VALOR = Some 30, DIA = 3, FECHA = Some (2016, 1, 3)\<rparr>,
      \<lparr>ESTACION = Empty, MAGNITUD = Number 1, ANO = Some 2016, MES = Some 1,
       DIA_STR = ''D03'', VALOR = Some 99, DIA = 3, FECHA = Some (2016, 1, 3)\<rparr>,
      \<lparr>ESTACION = Number 4, MAGNITUD = Number 1, ANO = Some 2016, MES = Some 1,
       DIA_STR = ''D04'', VALOR = Some 20, DIA = 4, FECHA = Some (2016, 1, 4)\<rparr>]"]
  by (simp add: resumen_estadistico_def groupby_keys_def group_values_def
      key_estacion_magnitud_def rank2_def cell_rank_def agg_count_def agg_mean_def agg_std_def
      agg_min_def agg_max_def Let_def)


section \<open>Properties of the monthly pivots\<close>

lemma groupby_mean_keys:
  "map fst (groupby_mean key rank df) = groupby_keys key rank df"
  by (simp add: groupby_mean_def comp_def)

lemma groupby_mean_Nil: "groupby_mean key rank [] = []"
  by (simp add: groupby_mean_def groupby_keys_def)

lemma map_of_groupby_mean:
  "map_of (groupby_mean key rank df) k
     = (if k \<in> set (groupby_keys key rank df) then Some (agg_mean (group_values key df k)) else None)"
  by (simp add: groupby_mean_def map_of_map_restrict restrict_map_def)

lemma key_estacion_mes_Some:
  "(key_estacion_mes r = Some k) = (ESTACION r = fst k \<and> MES r = Some (snd k) \<and> fst k \<noteq> Empty)"
  by (cases k) (auto simp: key_estacion_mes_def split: option.splits)

lemma key_ano_mes_magnitud_Some:
  "(key_ano_mes_magnitud r = Some k)
     = (ANO r = Some (fst (fst k)) \<and> MES r = Some (snd (fst k)) \<and> MAGNITUD r = snd k
        \<and> snd k \<noteq> Empty)"
  by (cases k) (auto simp: key_ano_mes_magnitud_def split: option.splits)

lemma pivot_groupby_mean:
  "pivot rank_i rank_c (groupby_mean key rank df)
     = Inr \<lparr>m_index = sort_key rank_i (remdups (map (\<lambda>e. fst (fst e)) (groupby_mean key rank df))),
            m_columns = sort_key rank_c (remdups (map (\<lambda>e. snd (fst e)) (groupby_mean key rank df))),
            m_entries = groupby_mean key rank df\<rparr>"
  by (simp add: pivot_def groupby_mean_keys distinct_groupby_keys)

lemma medias_mensuales_sort_index:
  "medias_mensuales_por_contaminante_y_ano df contaminante ano
     = sort_index
        \<lparr>m_index = sort_key cell_rank (remdups (map (\<lambda>e. fst (fst e))
                (groupby_mean key_estacion_mes rank_estacion_mes
                  (filter (\<lambda>r. MAGNITUD r = Number (of_int contaminante) \<and> ANO r = Some ano) df)))),
         m_columns = sort_key id (remdups (map (\<lambda>e. snd (fst e))
                (groupby_mean key_estacion_mes rank_estacion_mes
                  (filter (\<lambda>r. MAGNITUD r = Number (of_int contaminante) \<and> ANO r = Some ano) df)))),
         m_entries = groupby_mean key_estacion_mes rank_estacion_mes
                  (filter (\<lambda>r. MAGNITUD r = Number (of_int contaminante) \<and> ANO r = Some ano) df)\<rparr>"
  by (simp add: medias_mensuales_por_contaminante_y_ano_def Let_def pivot_groupby_mean)

lemma is_number_not_Empty: "is_number c \<Longrightarrow> c \<noteq> Empty"
  by (auto simp: is_number_def)

lemma is_text_not_Empty: "is_text c \<Longrightarrow> c \<noteq> Empty"
  by (auto simp: is_text_def)

lemma sort_index_Inr:
  "(sort_index M = Inr M') =
     (\<not> ((\<exists>a \<in> set (m_index M). is_number a) \<and> (\<exists>b \<in> set (m_index M). is_text b))
      \<and> M' = M\<lparr>m_index := sort_key cell_rank (m_index M)\<rparr>)"
  by (auto simp: sort_index_def list_ex_iff)

lemma sort_index_Inl:
  "(sort_index M = Inl e) =
     (((\<exists>a \<in> set (m_index M). is_number a) \<and> (\<exists>b \<in> set (m_index M). is_text b))
      \<and> e = TypeError)"
  by (auto simp: sort_index_def list_ex_iff)

lemma filter_none: "(\<forall>x \<in> set xs. \<not> P x) \<Longrightarrow> filter P xs = []"
  by (simp add: filter_empty_conv)

lemma pivot_table_Nil:
  "pivot_table rank_i rank_c [] = \<lparr>m_index = [], m_columns = [], m_entries = []\<rparr>"
  by (simp add: pivot_table_def)

lemma pivot_table_entries_subset:
  "fst ` set (m_entries (pivot_table rank_i rank_c es)) \<subseteq> fst ` set es"
  by (force simp: pivot_table_def Let_def)

lemma matrix_cell_absent:
  "k \<notin> fst ` set (m_entries M) \<Longrightarrow> matrix_cell M (fst k) (snd k) = None"
  by (simp add: matrix_cell_def map_of_eq_None_iff [THEN iffD2])

text \<open>
  Claim C9. When no record matches the pollutant and the year,
  \<^verbatim>\<open>medias_mensuales_por_contaminante_y_ano\<close> returns the empty matrix and does not
  raise. It returns a matrix exactly when the stations of the matching records that
  have a month are not numbers and texts at once; when they are, sorting the row labels
  raises a TypeError. In every matrix that it returns, a station and month with no
  matching record has no entry, and its cell reads as missing, not as zero, while a
  station and month with matching records has the mean of their values.
  \<^verbatim>\<open>medidas_mensuales_por_estacion\<close> likewise returns the empty matrix for a station (and
  year, if given) with no record, and has no entry for a year, month and pollutant with
  no record of the station.
\<close>

theorem monthly_pivots_empty_match:
  "((\<forall>r \<in> set df. \<not> (MAGNITUD r = Number (of_int contaminante) \<and> ANO r = Some ano))
      \<longrightarrow> medias_mensuales_por_contaminante_y_ano df contaminante ano
            = Inr \<lparr>m_index = [], m_columns = [], m_entries = []\<rparr>)
   \<and> ((\<exists>M. medias_mensuales_por_contaminante_y_ano df contaminante ano = Inr M)
        = (\<not> ((\<exists>r \<in> set df. (MAGNITUD r = Number (of_int contaminante) \<and> ANO r = Some ano)
                               \<and> MES r \<noteq> None \<and> is_number (ESTACION r))
               \<and> (\<exists>r \<in> set df. (MAGNITUD r = Number (of_int contaminante) \<and> ANO r = Some ano)
                               \<and> MES r \<noteq> None \<and> is_text (ESTACION r)))))
   \<and> (\<forall>e. medias_mensuales_por_contaminante_y_ano df contaminante ano = Inl e \<longrightarrow> e = TypeError)
   \<and> (\<forall>M. medias_mensuales_por_contaminante_y_ano df contaminante ano = Inr M \<longrightarrow>
         (\<forall>e m. (\<forall>r \<in> set df. \<not> ((MAGNITUD r = Number (of_int contaminante) \<and> ANO r = Some ano)
                                  \<and> ESTACION r = e \<and> MES r = Some m))
            \<longrightarrow> (e, m) \<notin> fst ` set (m_entries M) \<and> matrix_cell M e m = None)
       \<and> (\<forall>e m. e \<noteq> Empty
            \<longrightarrow> (\<exists>r \<in> set df. (MAGNITUD r = Number (of_int contaminante) \<and> ANO r = Some ano)
                                  \<and> ESTACION r = e \<and> MES r = Some m)
            \<longrightarrow> e \<in> set (m_index M) \<and> m \<in> set (m_columns M)
                \<and> matrix_cell M e m
                    = agg_mean (List.map_filter VALOR
                        (filter (\<lambda>r. (MAGNITUD r = Number (of_int contaminante) \<and> ANO r = Some ano)
                                      \<and> ESTACION r = e \<and> MES r = Some m) df))))
   \<and> ((\<forall>r \<in> set df. \<not> (ESTACION r = Number (of_int estacion_codigo)
                            \<and> (case ano_opt of None \<Rightarrow> True | Some a \<Rightarrow> ANO r = Some a)))
        \<longrightarrow> medidas_mensuales_por_estacion df estacion_codigo ano_opt
              = \<lparr>m_index = [], m_columns = [], m_entries = []\<rparr>)
   \<and> (\<forall>y m c. (\<forall>r \<in> set df. \<not> (ESTACION r = Number (of_int estacion_codigo)
                                  \<and> ANO r = Some y \<and> MES r = Some m \<and> MAGNITUD r = c))
        \<longrightarrow> ((y, m), c) \<notin> fst ` set (m_entries (medidas_mensuales_por_estacion df estacion_codigo ano_opt))
            \<and> matrix_cell (medidas_mensuales_por_estacion df estacion_codigo ano_opt) (y, m) c = None)"
proof -
  let ?P = "\<lambda>r. MAGNITUD r = Number (of_int contaminante) \<and> ANO r = Some ano"
  let ?tmp = "filter ?P df"
  let ?g = "groupby_mean key_estacion_mes rank_estacion_mes ?tmp"
  let ?M = "\<lparr>m_index = sort_key cell_rank (remdups (map (\<lambda>e. fst (fst e)) ?g)),
             m_columns = sort_key id (remdups (map (\<lambda>e. snd (fst e)) ?g)),
             m_entries = ?g\<rparr>"
  let ?res = "medias_mensuales_por_contaminante_y_ano df contaminante ano"
  have res: "?res = sort_index ?M" by (rule medias_mensuales_sort_index)
  have keys: "fst ` set ?g = {k. \<exists>r \<in> set df. ?P r \<and> ESTACION r = fst k \<and> MES r = Some (snd k)
                                  \<and> fst k \<noteq> Empty}"
  proof -
    have "fst ` set ?g = set (map fst ?g)" by simp
    also have "\<dots> = set (groupby_keys key_estacion_mes rank_estacion_mes ?tmp)"
      by (simp only: groupby_mean_keys)
    also have "\<dots> = {k. \<exists>r \<in> set df. ?P r \<and> ESTACION r = fst k \<and> MES r = Some (snd k)
                                  \<and> fst k \<noteq> Empty}"
      by (auto simp: set_groupby_keys key_estacion_mes_Some)
    finally show ?thesis .
  qed
  have index: "set (m_index ?M) = {e. e \<noteq> Empty \<and> (\<exists>r \<in> set df. ?P r \<and> ESTACION r = e \<and> MES r \<noteq> None)}"
  proof -
    have "set (m_index ?M) = fst ` (fst ` set ?g)" by (simp add: image_image)
    also have "\<dots> = {e. e \<noteq> Empty \<and> (\<exists>r \<in> set df. ?P r \<and> ESTACION r = e \<and> MES r \<noteq> None)}"
      unfolding keys
    proof (intro equalityI subsetI)
      fix e
      assume "e \<in> fst ` {k. \<exists>r \<in> set df. ?P r \<and> ESTACION r = fst k \<and> MES r = Some (snd k)
                                  \<and> fst k \<noteq> Empty}"
      then show "e \<in> {e. e \<noteq> Empty \<and> (\<exists>r \<in> set df. ?P r \<and> ESTACION r = e \<and> MES r \<noteq> None)}"
        by auto
    next
      fix e
      assume "e \<in> {e. e \<noteq> Empty \<and> (\<exists>r \<in> set df. ?P r \<and> ESTACION r = e \<and> MES r \<noteq> None)}"
      then obtain r m where "e \<noteq> Empty" "r \<in> set df" "?P r" "ESTACION r = e" "MES r = Some m"
        by auto
      then have "(e, m) \<in> {k. \<exists>r \<in> set df. ?P r \<and> ESTACION r = fst k \<and> MES r = Some (snd k)
                                  \<and> fst k \<noteq> Empty}"
        by auto
      then show "e \<in> fst ` {k. \<exists>r \<in> set df. ?P r \<and> ESTACION r = fst k \<and> MES r = Some (snd k)
                                  \<and> fst k \<noteq> Empty}"
        by (rule rev_image_eqI) simp
    qed
    finally show ?thesis .
  qed
  have numbers: "(\<exists>a \<in> set (m_index ?M). is_number a)
                 = (\<exists>r \<in> set df. ?P r \<and> MES r \<noteq> None \<and> is_number (ESTACION r))"
    unfolding index by (auto dest: is_number_not_Empty)
  have texts: "(\<exists>b \<in> set (m_index ?M). is_text b)
                 = (\<exists>r \<in> set df. ?P r \<and> MES r \<noteq> None \<and> is_text (ESTACION r))"
    unfolding index by (auto dest: is_text_not_Empty)
  have empty: "(\<forall>r \<in> set df. \<not> ?P r) \<longrightarrow> ?res = Inr \<lparr>m_index = [], m_columns = [], m_entries = []\<rparr>"
  proof
    assume "\<forall>r \<in> set df. \<not> ?P r"
    then have "?tmp = []" by (rule filter_none)
    then have "?M = \<lparr>m_index = [], m_columns = [], m_entries = []\<rparr>"
      by (simp add: groupby_mean_Nil)
    then show "?res = Inr \<lparr>m_index = [], m_columns = [], m_entries = []\<rparr>"
      by (simp add: res sort_index_def)
  qed
  have returns: "(\<exists>M. ?res = Inr M)
        = (\<not> ((\<exists>r \<in> set df. ?P r \<and> MES r \<noteq> None \<and> is_number (ESTACION r))
               \<and> (\<exists>r \<in> set df. ?P r \<and> MES r \<noteq> None \<and> is_text (ESTACION r))))"
    unfolding res sort_index_Inr numbers texts by blast
  have raises: "\<forall>e. ?res = Inl e \<longrightarrow> e = TypeError"
    unfolding res sort_index_Inl by blast
  have absent: "\<forall>e m. (\<forall>r \<in> set df. \<not> (?P r \<and> ESTACION r = e \<and> MES r = Some m))
            \<longrightarrow> (e, m) \<notin> fst ` set (m_entries M) \<and> matrix_cell M e m = None"
    if M: "?res = Inr M" for M
  proof (intro allI impI)
    fix e m assume no: "\<forall>r \<in> set df. \<not> (?P r \<and> ESTACION r = e \<and> MES r = Some m)"
    from M have ent: "m_entries M = ?g" unfolding res sort_index_Inr by simp
    have notin: "(e, m) \<notin> fst ` set (m_entries M)"
    proof
      assume "(e, m) \<in> fst ` set (m_entries M)"
      then have "(e, m) \<in> fst ` set ?g" by (simp only: ent)
      then obtain r where "r \<in> set df" "?P r" "ESTACION r = e" "MES r = Some m"
        unfolding keys by auto
      with no show False by blast
    qed
    from matrix_cell_absent [OF notin] notin
    show "(e, m) \<notin> fst ` set (m_entries M) \<and> matrix_cell M e m = None" by simp
  qed
  have present: "\<forall>e m. e \<noteq> Empty
            \<longrightarrow> (\<exists>r \<in> set df. ?P r \<and> ESTACION r = e \<and> MES r = Some m)
            \<longrightarrow> e \<in> set (m_index M) \<and> m \<in> set (m_columns M)
                \<and> matrix_cell M e m
                    = agg_mean (List.map_filter VALOR
                        (filter (\<lambda>r. ?P r \<and> ESTACION r = e \<and> MES r = Some m) df))"
    if M: "?res = Inr M" for M
  proof (intro allI impI)
    fix e m assume ne: "e \<noteq> Empty" and ex: "\<exists>r \<in> set df. ?P r \<and> ESTACION r = e \<and> MES r = Some m"
    from M have ent: "m_entries M = ?g" and col: "m_columns M = m_columns ?M"
      and ind: "set (m_index M) = set (m_index ?M)"
      unfolding res sort_index_Inr by simp_all
    from ne ex have k: "(e, m) \<in> fst ` set ?g" unfolding keys by simp
    then have kk: "(e, m) \<in> set (groupby_keys key_estacion_mes rank_estacion_mes ?tmp)"
      by (simp only: groupby_mean_keys [symmetric] set_map)
    have gv: "group_values key_estacion_mes ?tmp (e, m)
              = List.map_filter VALOR (filter (\<lambda>r. ?P r \<and> ESTACION r = e \<and> MES r = Some m) df)"
      using ne by (simp add: group_values_def key_estacion_mes_Some)
    have i: "e \<in> set (m_index M)" unfolding ind using k by (force simp: image_iff)
    have c: "m \<in> set (m_columns M)" unfolding col using k by (force simp: image_iff)
    have v: "matrix_cell M e m = agg_mean (group_values key_estacion_mes ?tmp (e, m))"
      using kk by (simp add: matrix_cell_def ent map_of_groupby_mean)
    from i c v gv show "e \<in> set (m_index M) \<and> m \<in> set (m_columns M)
                \<and> matrix_cell M e m
                    = agg_mean (List.map_filter VALOR
                        (filter (\<lambda>r. ?P r \<and> ESTACION r = e \<and> MES r = Some m) df))"
      by simp
  qed
  let ?Q = "\<lambda>r. ESTACION r = Number (of_int estacion_codigo)"
  let ?tmp2 = "case ano_opt of None \<Rightarrow> filter ?Q df | Some a \<Rightarrow> filter (\<lambda>r. ANO r = Some a) (filter ?Q df)"
  have res2: "medidas_mensuales_por_estacion df estacion_codigo ano_opt
        = pivot_table id cell_rank (groupby_mean key_ano_mes_magnitud rank_ano_mes_magnitud ?tmp2)"
    by (simp add: medidas_mensuales_por_estacion_def Let_def)
  have empty2: "(\<forall>r \<in> set df. \<not> (?Q r \<and> (case ano_opt of None \<Rightarrow> True | Some a \<Rightarrow> ANO r = Some a)))
        \<longrightarrow> medidas_mensuales_por_estacion df estacion_codigo ano_opt
              = \<lparr>m_index = [], m_columns = [], m_entries = []\<rparr>"
  proof
    assume no: "\<forall>r \<in> set df. \<not> (?Q r \<and> (case ano_opt of None \<Rightarrow> True | Some a \<Rightarrow> ANO r = Some a))"
    have "?tmp2 = []"
    proof (cases ano_opt)
      case None
      with no show ?thesis by (simp add: filter_empty_conv)
    next
      case (Some a)
      with no show ?thesis by (auto simp: filter_empty_conv)
    qed
    then show "medidas_mensuales_por_estacion df estacion_codigo ano_opt
              = \<lparr>m_index = [], m_columns = [], m_entries = []\<rparr>"
      by (simp only: res2 groupby_mean_Nil pivot_table_Nil)
  qed
  have absent2: "\<forall>y m c. (\<forall>r \<in> set df. \<not> (?Q r \<and> ANO r = Some y \<and> MES r = Some m \<and> MAGNITUD r = c))
        \<longrightarrow> ((y, m), c) \<notin> fst ` set (m_entries (medidas_mensuales_por_estacion df estacion_codigo ano_opt))
            \<and> matrix_cell (medidas_mensuales_por_estacion df estacion_codigo ano_opt) (y, m) c = None"
  proof (intro allI impI)
    fix y m c
    assume no: "\<forall>r \<in> set df. \<not> (?Q r \<and> ANO r = Some y \<and> MES r = Some m \<and> MAGNITUD r = c)"
    let ?R = "medidas_mensuales_por_estacion df estacion_codigo ano_opt"
    have sub: "set ?tmp2 \<subseteq> {r \<in> set df. ?Q r}" by (cases ano_opt) auto
    have notin: "((y, m), c) \<notin> fst ` set (m_entries ?R)"
    proof
      assume "((y, m), c) \<in> fst ` set (m_entries ?R)"
      then have "((y, m), c) \<in> fst ` set (groupby_mean key_ano_mes_magnitud rank_ano_mes_magnitud ?tmp2)"
        using pivot_table_entries_subset unfolding res2 by blast
      then have "((y, m), c) \<in> set (map fst (groupby_mean key_ano_mes_magnitud rank_ano_mes_magnitud ?tmp2))"
        by simp
      then have "((y, m), c) \<in> set (groupby_keys key_ano_mes_magnitud rank_ano_mes_magnitud ?tmp2)"
        by (simp only: groupby_mean_keys)
      then obtain r where "r \<in> set ?tmp2" "key_ano_mes_magnitud r = Some ((y, m), c)"
        by (auto simp: set_groupby_keys)
      with sub have "r \<in> set df" "?Q r" "ANO r = Some y" "MES r = Some m" "MAGNITUD r = c"
        by (auto simp: key_ano_mes_magnitud_Some)
      with no show False by blast
    qed
    from matrix_cell_absent [OF notin] notin
    show "((y, m), c) \<notin> fst ` set (m_entries ?R) \<and> matrix_cell ?R (y, m) c = None" by simp
  qed
  from absent present have both: "\<forall>M. ?res = Inr M \<longrightarrow>
         (\<forall>e m. (\<forall>r \<in> set df. \<not> (?P r \<and> ESTACION r = e \<and> MES r = Some m))
            \<longrightarrow> (e, m) \<notin> fst ` set (m_entries M) \<and> matrix_cell M e m = None)
       \<and> (\<forall>e m. e \<noteq> Empty
            \<longrightarrow> (\<exists>r \<in> set df. ?P r \<and> ESTACION r = e \<and> MES r = Some m)
            \<longrightarrow> e \<in> set (m_index M) \<and> m \<in> set (m_columns M)
                \<and> matrix_cell M e m
                    = agg_mean (List.map_filter VALOR
                        (filter (\<lambda>r. ?P r \<and> ESTACION r = e \<and> MES r = Some m) df)))"
    by blast
  from empty returns raises both empty2 absent2 show ?thesis by (intro conjI)
qed

theorem monthly_pivots_empty_match_witness:
  "medias_mensuales_por_contaminante_y_ano
     [\<lparr>ESTACION = Number 4, MAGNITUD = Number 1, ANO = Some 2016, MES = Some 1,
       DIA_STR = ''D01'', VALOR = Some 10, DIA = 1, FECHA = Some (2016, 1, 1)\<rparr>,
      \<lparr>ESTACION = Number 4, MAGNITUD = Number 1, ANO = Some 2016, MES = Some 1,
       DIA_STR = ''D02'', VALOR = Some 20, DIA = 2, FECHA = Some (2016, 1, 2)\<rparr>,
      \<lparr>ESTACION = Number 5, MAGNITUD = Number 1, ANO = Some 2016, MES = Some 2,
       DIA_STR = ''D01'', VALOR = None, DIA = 1, FECHA = Some (2016, 2, 1)\<rparr>] 9 2016
     = Inr \<lparr>m_index = [], m_columns = [], m_entries = []\<rparr>
   \<and> medias_mensuales_por_contaminante_y_ano
     [\<lparr>ESTACION = Number 4, MAGNITUD = Number 1, ANO = Some 2016, MES = Some 1,
       DIA_STR = ''D01'', VALOR = Some 10, DIA = 1, FECHA = Some (2016, 1, 1)\<rparr>,
      \<lparr>ESTACION = Number 4, MAGNITUD = Number 1, ANO = Some 2016, MES = Some 1,
       DIA_STR = ''D02'', VALOR = Some 20, DIA = 2, FECHA = Some (2016, 1, 2)\<rparr>,
      \<lparr>ESTACION = Number 5, MAGNITUD = Number 1, ANO = Some 2016, MES = Some 2,
       DIA_STR = ''D01'', VALOR = None, DIA = 1, FECHA = Some (2016, 2, 1)\<rparr>] 1 2016
     = Inr \<lparr>m_index = [Number 4, Number 5], m_columns = [1, 2],
            m_entries = [((Number 4, 1), Some 15), ((Number 5, 2), None)]\<rparr>
   \<and> matrix_cell \<lparr>m_index = [Number 4, Number 5], m_columns = [1 :: int, 2],
            m_entries = [((Number 4, 1), Some 15), ((Number 5, 2), None)]\<rparr> (Number 4) 2 = None
   \<and> medidas_mensuales_por_estacion
     [\<lparr>ESTACION = Number 4, MAGNITUD = Number 1, ANO = Some 2016, MES = Some 1,
       DIA_STR = ''D01'', VALOR = Some 10, DIA = 1, FECHA = Some (2016, 1, 1)\<rparr>,
      \<lparr>ESTACION = Number 4, MAGNITUD = Number 1, ANO = Some 2016, MES = Some 1,
       DIA_STR = ''D02'', VALOR = Some 20, DIA = 2, FECHA = Some (2016, 1, 2)\<rparr>,
      \<lparr>ESTACION = Number 5, MAGNITUD = Number 1, ANO = Some 2016, MES = Some 2,
       DIA_STR = ''D01'', VALOR = None, DIA = 1, FECHA = Some (2016, 2, 1)\<rparr>] 77 None
     = \<lparr>m_index = [], m_columns = [], m_entries = []\<rparr>
   \<and> medidas_mensuales_por_estacion
     [\<lparr>ESTACION = Number 4, MAGNITUD = Number 1, ANO = Some 2016, MES = Some 1,
       DIA_STR = ''D01'', VALOR = Some 10, DIA = 1, FECHA = Some (2016, 1, 1)\<rparr>,
      \<lparr>ESTACION = Number 4, MAGNITUD = Number 1, ANO = Some 2016, MES = Some 1,
       DIA_STR = ''D02'', VALOR = Some 20, DIA = 2, FECHA = Some (2016, 1, 2)\<rparr>,
      \<lparr>ESTACION = Number 5, MAGNITUD = Number 1, ANO = Some 2016, MES = Some 2,
       DIA_STR = ''D01'', VALOR = None, DIA = 1, FECHA = Some (2016, 2, 1)\<rparr>] 4 (Some 2016)
     = \<lparr>m_index = [(2016, 1)], m_columns = [Number 1],
        m_entries = [(((2016, 1), Number 1), Some 15)]\<rparr>
   \<and> medias_mensuales_por_contaminante_y_ano
     [\<lparr>ESTACION = Number 4, MAGNITUD = Number 1, ANO = Some 2016, MES = Some 1,
       DIA_STR = ''D01'', VALOR = Some 10, DIA = 1, FECHA = Some (2016, 1, 1)\<rparr>,
      \<lparr>ESTACION = Text ''MER'', MAGNITUD = Number 1, ANO = Some 2016, MES = Some 1,
       DIA_STR = ''D01'', VALOR = Some 20, DIA = 1, FECHA = Some (2016, 1, 1)\<rparr>] 1 2016
     = Inl TypeError"
proof -
  let ?df = "[\<lparr>ESTACION = Number 4, MAGNITUD = Number 1, ANO = Some 2016, MES = Some 1,
       DIA_STR = ''D01'', VALOR = Some 10, DIA = 1, FECHA = Some (2016, 1, 1)\<rparr>,
      \<lparr>ESTACION = Number 4, MAGNITUD = Number 1, ANO = Some 2016, MES = Some 1,
       DIA_STR = ''D02'', VALOR = Some 20, DIA = 2, FECHA = Some (2016, 1, 2)\<rparr>,
      \<lparr>ESTACION = Number 5, MAGNITUD = Number 1, ANO = Some 2016, MES = Some 2,
       DIA_STR = ''D01'', VALOR = None, DIA = 1, FECHA = Some (2016, 2, 1)\<rparr>]"
  note inst = monthly_pivots_empty_match [of ?df 9 2016 77 None]
  have h1: "\<forall>r \<in> set ?df. \<not> (MAGNITUD r = Number (of_int 9) \<and> ANO r = Some 2016)" by simp
  have h2: "\<forall>r \<in> set ?df. \<not> (ESTACION r = Number (of_int 77)
               \<and> (case None of None \<Rightarrow> True | Some a \<Rightarrow> ANO r = Some a))" by simp
  from inst h1 have e1: "medias_mensuales_por_contaminante_y_ano ?df 9 2016
     = Inr \<lparr>m_index = [], m_columns = [], m_entries = []\<rparr>" by blast
  from inst h2 have e2: "medidas_mensuales_por_estacion ?df 77 None
     = \<lparr>m_index = [], m_columns = [], m_entries = []\<rparr>" by blast
  have e3: "medias_mensuales_por_contaminante_y_ano ?df 1 2016
     = Inr \<lparr>m_index = [Number 4, Number 5], m_columns = [1, 2],
            m_entries = [((Number 4, 1), Some 15), ((Number 5, 2), None)]\<rparr>"
    by (simp add: medias_mensuales_por_contaminante_y_ano_def pivot_def groupby_mean_def
        groupby_keys_def group_values_def key_estacion_mes_def rank_estacion_mes_def
        cell_rank_def agg_mean_def Let_def sort_index_def is_number_def is_text_def)
  have e4: "matrix_cell \<lparr>m_index = [Number 4, Number 5], m_columns = [1 :: int, 2],
            m_entries = [((Number 4, 1), Some 15), ((Number 5, 2), None)]\<rparr> (Number 4) 2 = None"
    by (simp add: matrix_cell_def)
  have e5: "medidas_mensuales_por_estacion ?df 4 (Some 2016)
     = \<lparr>m_index = [(2016, 1)], m_columns = [Number 1],
        m_entries = [(((2016, 1), Number 1), Some 15)]\<rparr>"
    by (simp add: medidas_mensuales_por_estacion_def pivot_table_def groupby_mean_def
        groupby_keys_def group_values_def key_ano_mes_magnitud_def rank_ano_mes_magnitud_def
        cell_rank_def agg_mean_def Let_def)
  have e6: "medias_mensuales_por_contaminante_y_ano
     [\<lparr>ESTACION = Number 4, MAGNITUD = Number 1, ANO = Some 2016, MES = Some 1,
       DIA_STR = ''D01'', VALOR = Some 10, DIA = 1, FECHA = Some (2016, 1, 1)\<rparr>,
      \<lparr>ESTACION = Text ''MER'', MAGNITUD = Number 1, ANO = Some 2016, MES = Some 1,
       DIA_STR = ''D01'', VALOR = Some 20, DIA = 1, FECHA = Some (2016, 1, 1)\<rparr>] 1 2016
     = Inl TypeError"
    by (simp add: medias_mensuales_por_contaminante_y_ano_def pivot_def groupby_mean_def
        groupby_keys_def group_values_def key_estacion_mes_def rank_estacion_mes_def
        cell_rank_def agg_mean_def Let_def sort_index_def is_number_def is_text_def)
  from e1 e3 e4 e2 e5 e6 show ?thesis by (intro conjI)
qed

end
